theory Spec2Isabelle
  imports Main "HOL-Library.Char_ord" "HOL-Library.List_Lexorder" "HOL-Library.Multiset"
begin

section \<open>Data model\<close>

text \<open>
  The service of \<^verbatim>\<open>user.service.ts\<close> (class \<^verbatim>\<open>UserService\<close>) works on a relational
  store through an object-relational mapper.
\<close>

text \<open>
  Modelled from the spec: the entity declaration (\<^verbatim>\<open>user.model.ts\<close>) is not among the
  sources. The columns are the ones the data model names: id, username, passwordHash,
  displayName, userRoleName, version. A stored row has all of them.
\<close>

record user =
  user_id :: int
  username :: string
  passwordHash :: string
  displayName :: string
  userRoleName :: string
  version :: int

text \<open>
  A partial user object: what a query with an \<^verbatim>\<open>attributes\<close> list returns, and what
  \<^verbatim>\<open>create\<close> and \<^verbatim>\<open>update\<close> receive as values. An absent property is \<open>None\<close>.
\<close>

record user_attrs =
  attr_id :: "int option"
  attr_username :: "string option"
  attr_passwordHash :: "string option"
  attr_displayName :: "string option"
  attr_userRoleName :: "string option"
  attr_version :: "int option"

text \<open>
  Modelled from the spec: the session entity is not among the sources. The data model
  says that a session belongs to a user by a foreign key.
\<close>

record session =
  session_id :: int
  session_userId :: int

text \<open>
  Modelled from the spec: the class \<^verbatim>\<open>MessageCodeError\<close>
  (\<^verbatim>\<open>../common/error/MessageCodeError\<close>) is not among the sources; it is the error
  that carries a message code, the one it is constructed with. It is one of the values
  a rejected promise can carry. The others: \<^verbatim>\<open>BadRequestException\<close>, which the
  service throws itself; \<^verbatim>\<open>TypeError\<close>, which the language raises when a property of
  \<^verbatim>\<open>undefined\<close> is read; \<open>DatabaseError\<close>, a statement the database refuses;
  \<open>OtherError\<close>, any other failure; \<open>ConflictError\<close> and \<open>NotFoundError\<close>, the
  two outcomes of the version check, which the specification tells apart without giving
  their message codes.
\<close>

datatype exn =
    BadRequestException
  | MessageCodeError string
  | TypeError
  | DatabaseError
  | ConflictError
  | NotFoundError
  | OtherError string

text \<open>\<^verbatim>\<open>error.messageCode\<close>: only a \<^verbatim>\<open>MessageCodeError\<close> has one.\<close>

fun messageCode :: "exn \<Rightarrow> string option" where
  "messageCode (MessageCodeError c) = Some c"
| "messageCode _ = None"

text \<open>
  The database as the service sees it: the two tables, the sequence that numbers new
  users, the engine's case-insensitive regular-expression operator (\<^verbatim>\<open>Op.iRegexp\<close>,
  PostgreSQL's \<^verbatim>\<open>~*\<close>: a pattern either does not compile, or decides every subject
  string), the collation as a sort key, the order in which the engine delivers rows
  that ORDER BY leaves tied (a rank of the rows: SQL does not say which of them comes
  first, the engine decides), and the outcomes of the database calls still to come:
  \<open>Some e\<close> is a call that is rejected with \<open>e\<close>, \<open>None\<close> one that goes through,
  and after the end of the list every call goes through.
\<close>

record 'k database =
  users :: "user list"
  sessions :: "session list"
  next_id :: int
  iRegexp :: "string \<Rightarrow> (string \<Rightarrow> bool) option"
  collation :: "string \<Rightarrow> 'k"
  tie_rank :: "user \<Rightarrow> nat"
  faults :: "exn option list"

text \<open>One round trip to the database: it takes the next outcome off the list.\<close>

definition db_call :: "'k database \<Rightarrow> exn option \<times> 'k database" where
  "db_call w =
     (case faults w of
        [] \<Rightarrow> (None, w)
      | f # fs \<Rightarrow> (f, w\<lparr>faults := fs\<rparr>))"

section \<open>The object-relational mapper\<close>

text \<open>
  The \<^verbatim>\<open>where\<close> objects the service builds:
  \<^verbatim>\<open>{}\<close>, \<^verbatim>\<open>{ id }\<close>, \<^verbatim>\<open>{ username }\<close>,
  \<^verbatim>\<open>{ displayName: { [Op.iRegexp]: p } }\<close> and \<^verbatim>\<open>{ [Op.or]: [c1, ..., cn] }\<close>.
\<close>

datatype where_cond =
    WEmpty
  | WId int
  | WUsername string
  | WDisplayNameIRegexp string
  | WOr "where_cond list"

text \<open>Every pattern of the condition compiles.\<close>

fun where_valid :: "(string \<Rightarrow> (string \<Rightarrow> bool) option) \<Rightarrow> where_cond \<Rightarrow> bool" where
  "where_valid rx (WDisplayNameIRegexp p) = (rx p \<noteq> None)"
| "where_valid rx (WOr cs) = list_all (where_valid rx) cs"
| "where_valid rx _ = True"

text \<open>
  The rows a condition selects, as Sequelize's query generator renders it: inside an
  \<^verbatim>\<open>Op.or\<close> group an empty object contributes no text and is dropped, the remaining
  members are joined by OR, and a group with no member left is rendered as the
  always-false \<^verbatim>\<open>0 = 1\<close> (the generator's comment: "Op.or: [] should return no
  data"). That the service relies on the dropping shows in \<^verbatim>\<open>usersFind\<close>: with ids
  given and no usernames it passes \<^verbatim>\<open>[{ [Op.or]: ids }, {}]\<close> and means the users with
  these ids.
\<close>

fun where_matches :: "(string \<Rightarrow> (string \<Rightarrow> bool) option) \<Rightarrow> where_cond \<Rightarrow> user \<Rightarrow> bool" where
  "where_matches rx WEmpty u = True"
| "where_matches rx (WId i) u = (user_id u = i)"
| "where_matches rx (WUsername n) u = (username u = n)"
| "where_matches rx (WDisplayNameIRegexp p) u =
     (case rx p of None \<Rightarrow> False | Some m \<Rightarrow> m (displayName u))"
| "where_matches rx (WOr cs) u = list_ex (\<lambda>c. c \<noteq> WEmpty \<and> where_matches rx c u) cs"

text \<open>\<^verbatim>\<open>order: [['displayName', 'ASC']]\<close>, or no \<^verbatim>\<open>order\<close> option.\<close>

datatype ordering = Unordered | DisplayNameAsc

record find_options =
  opt_where :: where_cond
  opt_attributes :: "string list option"
  opt_limit :: "int option"
  opt_offset :: "int option"
  opt_order :: ordering

text \<open>
  ORDER BY sorts by the collation key of displayName. Rows with equal keys come in the
  order of the engine's rank: the rows are put in rank order first, and the sort by
  key, which is stable, keeps that order among equal keys.
\<close>

definition apply_order :: "ordering \<Rightarrow> (string \<Rightarrow> 'k::linorder) \<Rightarrow> (user \<Rightarrow> nat) \<Rightarrow> user list \<Rightarrow> user list" where
  "apply_order ord coll rank rows =
     (case ord of
        Unordered \<Rightarrow> rows
      | DisplayNameAsc \<Rightarrow> sort_key (\<lambda>u. coll (displayName u)) (sort_key rank rows))"

definition apply_offset :: "int option \<Rightarrow> user list \<Rightarrow> user list" where
  "apply_offset off rows = (case off of None \<Rightarrow> rows | Some k \<Rightarrow> drop (nat k) rows)"

definition apply_limit :: "int option \<Rightarrow> user list \<Rightarrow> user list" where
  "apply_limit lim rows = (case lim of None \<Rightarrow> rows | Some k \<Rightarrow> take (nat k) rows)"

definition negative :: "int option \<Rightarrow> bool" where
  "negative x = (case x of None \<Rightarrow> False | Some k \<Rightarrow> k < 0)"

text \<open>
  \<^verbatim>\<open>Model.findAll\<close>: one SELECT with WHERE, ORDER BY, OFFSET and LIMIT applied in SQL's
  order. The database refuses a pattern that does not compile and a negative LIMIT or
  OFFSET. The
  \<^verbatim>\<open>include\<close> option joins each user's role and selects no fewer and no more users;
  it is left out.
\<close>

definition findAll :: "find_options \<Rightarrow> ('k::linorder) database \<Rightarrow> (exn + user list) \<times> 'k database" where
  "findAll opts w =
     (case db_call w of
        (Some e, w') \<Rightarrow> (Inl e, w')
      | (None, w') \<Rightarrow>
          if where_valid (iRegexp w') (opt_where opts)
             \<and> \<not> negative (opt_limit opts) \<and> \<not> negative (opt_offset opts)
          then (Inr (apply_limit (opt_limit opts)
                      (apply_offset (opt_offset opts)
                        (apply_order (opt_order opts) (collation w') (tie_rank w')
                          (filter (where_matches (iRegexp w') (opt_where opts)) (users w'))))),
                w')
          else (Inl DatabaseError, w'))"

text \<open>The properties of a row that an \<^verbatim>\<open>attributes\<close> list keeps; no list keeps all.\<close>

definition project :: "string list option \<Rightarrow> user \<Rightarrow> user_attrs" where
  "project attrs u =
     (let keep = (\<lambda>a. case attrs of None \<Rightarrow> True | Some as \<Rightarrow> a \<in> set as) in
      \<lparr> attr_id = (if keep ''id'' then Some (user_id u) else None),
        attr_username = (if keep ''username'' then Some (username u) else None),
        attr_passwordHash = (if keep ''passwordHash'' then Some (passwordHash u) else None),
        attr_displayName = (if keep ''displayName'' then Some (displayName u) else None),
        attr_userRoleName = (if keep ''userRoleName'' then Some (userRoleName u) else None),
        attr_version = (if keep ''version'' then Some (version u) else None) \<rparr>)"

text \<open>\<^verbatim>\<open>Model.findOne\<close>: \<^verbatim>\<open>findAll\<close> with \<^verbatim>\<open>limit: 1\<close>, then the first row or \<^verbatim>\<open>null\<close>.\<close>

definition findOne :: "find_options \<Rightarrow> ('k::linorder) database \<Rightarrow> (exn + user_attrs option) \<times> 'k database" where
  "findOne opts w =
     (case findAll (opts\<lparr>opt_limit := Some 1\<rparr>) w of
        (Inl e, w') \<Rightarrow> (Inl e, w')
      | (Inr rows, w') \<Rightarrow>
          (Inr (case rows of [] \<Rightarrow> None | r # _ \<Rightarrow> Some (project (opt_attributes opts) r)), w'))"

text \<open>The options object of a lookup by one condition.\<close>

definition lookup :: "where_cond \<Rightarrow> string list option \<Rightarrow> find_options" where
  "lookup c attrs =
     \<lparr> opt_where = c, opt_attributes = attrs, opt_limit = None, opt_offset = None,
       opt_order = Unordered \<rparr>"

section \<open>The read operations of UserService\<close>



definition checkVersion :: "int \<Rightarrow> ('k::linorder) database \<Rightarrow> (exn + user_attrs option) \<times> 'k database" where
  "checkVersion i w =
     (case findOne (lookup (WId i) (Some [''version''])) w of
        (Inl error, w') \<Rightarrow> (Inl BadRequestException, w')
      | (Inr res, w') \<Rightarrow> (Inr res, w'))"

definition userNameFind :: "string \<Rightarrow> ('k::linorder) database \<Rightarrow> (exn + user_attrs option) \<times> 'k database" where
  "userNameFind name w =
     (case findOne (lookup (WUsername name) (Some [''id'', ''username''])) w of
        (Inl error, w') \<Rightarrow> (Inl BadRequestException, w')
      | (Inr res, w') \<Rightarrow> (Inr res, w'))"

definition user :: "int \<Rightarrow> ('k::linorder) database \<Rightarrow> (exn + user_attrs option) \<times> 'k database" where
  "user i w =
     (case findOne (lookup (WId i) None) w of
        (Inl error, w') \<Rightarrow> (Inl BadRequestException, w')
      | (Inr res, w') \<Rightarrow> (Inr res, w'))"

text \<open>
  \<^verbatim>\<open>isEmpty(textFilter)\<close> of lodash holds of \<^verbatim>\<open>undefined\<close>, \<^verbatim>\<open>null\<close> and the empty
  string; a missing filter is \<open>None\<close>.
\<close>

definition isEmpty :: "string option \<Rightarrow> bool" where
  "isEmpty s = (case s of None \<Rightarrow> True | Some t \<Rightarrow> t = [])"

text \<open>The template \<^verbatim>\<open>`(^${textFilter})|( ${textFilter})`\<close>, or the empty pattern.\<close>

definition iRegexp_of :: "string option \<Rightarrow> string" where
  "iRegexp_of textFilter =
     (if isEmpty textFilter then []
      else (case textFilter of
              None \<Rightarrow> []
            | Some t \<Rightarrow> ''(^'' @ t @ '')|( '' @ t @ '')''))"

definition userList :: "string option \<Rightarrow> int \<Rightarrow> int \<Rightarrow> ('k::linorder) database \<Rightarrow> (exn + user list) \<times> 'k database" where
  "userList textFilter page paging w =
     (case findAll \<lparr> opt_where = WDisplayNameIRegexp (iRegexp_of textFilter),
                     opt_attributes = None,
                     opt_limit = Some paging,
                     opt_offset = Some ((page - 1) * paging),
                     opt_order = DisplayNameAsc \<rparr> w of
        (Inl error, w') \<Rightarrow> (Inl BadRequestException, w')
      | (Inr rows, w') \<Rightarrow> (Inr rows, w'))"

text \<open>The argument object of \<^verbatim>\<open>usersFind\<close> (\<^verbatim>\<open>UserFindArgsDto\<close>): two lists.\<close>

record user_find_args =
  ids :: "int list"
  usernames :: "string list"

definition usersFind :: "user_find_args \<Rightarrow> ('k::linorder) database \<Rightarrow> (exn + user list) \<times> 'k database" where
  "usersFind data w =
     (let loginWhereCondition =
            (if length (usernames data) > 0 then WOr (map WUsername (usernames data)) else WEmpty);
          idWhereCondition =
            (if length (ids data) > 0 then WOr (map WId (ids data)) else WEmpty)
      in case findAll (lookup (WOr [idWhereCondition, loginWhereCondition]) None) w of
           (Inl error, w') \<Rightarrow> (Inl BadRequestException, w')
         | (Inr rows, w') \<Rightarrow> (Inr rows, w'))"

section \<open>Writes, transactions and sessions\<close>

text \<open>
  \<^verbatim>\<open>Model.create\<close>: one INSERT. The id comes from the sequence unless the values give
  one, the version counter starts at 0 unless the values give one, and the database
  refuses a row that lacks one of the other columns.
\<close>

definition create :: "user_attrs \<Rightarrow> 'k database \<Rightarrow> (exn + user) \<times> 'k database" where
  "create vals w =
     (case db_call w of
        (Some e, w') \<Rightarrow> (Inl e, w')
      | (None, w') \<Rightarrow>
          (case attr_username vals of None \<Rightarrow> (Inl DatabaseError, w') | Some n \<Rightarrow>
          (case attr_passwordHash vals of None \<Rightarrow> (Inl DatabaseError, w') | Some h \<Rightarrow>
          (case attr_displayName vals of None \<Rightarrow> (Inl DatabaseError, w') | Some d \<Rightarrow>
          (case attr_userRoleName vals of None \<Rightarrow> (Inl DatabaseError, w') | Some r \<Rightarrow>
             (let row = \<lparr> user_id = (case attr_id vals of None \<Rightarrow> next_id w' | Some i \<Rightarrow> i),
                          username = n, passwordHash = h, displayName = d, userRoleName = r,
                          version = (case attr_version vals of None \<Rightarrow> 0 | Some v \<Rightarrow> v) \<rparr>
              in (Inr row, w'\<lparr>users := users w' @ [row], next_id := next_id w' + 1\<rparr>)))))))"

text \<open>A row after an UPDATE that sets the given values.\<close>

definition apply_values :: "user_attrs \<Rightarrow> user \<Rightarrow> user" where
  "apply_values vals u =
     \<lparr> user_id = (case attr_id vals of None \<Rightarrow> user_id u | Some i \<Rightarrow> i),
       username = (case attr_username vals of None \<Rightarrow> username u | Some n \<Rightarrow> n),
       passwordHash = (case attr_passwordHash vals of None \<Rightarrow> passwordHash u | Some h \<Rightarrow> h),
       displayName = (case attr_displayName vals of None \<Rightarrow> displayName u | Some d \<Rightarrow> d),
       userRoleName = (case attr_userRoleName vals of None \<Rightarrow> userRoleName u | Some r \<Rightarrow> r),
       version = (case attr_version vals of None \<Rightarrow> version u | Some v \<Rightarrow> v) \<rparr>"

text \<open>
  \<^verbatim>\<open>Model.update(values, { where, returning: true })\<close>: one UPDATE; the result is the
  pair of the number of rows changed and the rows as they are afterwards.
\<close>

definition update :: "user_attrs \<Rightarrow> where_cond \<Rightarrow> 'k database \<Rightarrow> (exn + nat \<times> user list) \<times> 'k database" where
  "update vals c w =
     (case db_call w of
        (Some e, w') \<Rightarrow> (Inl e, w')
      | (None, w') \<Rightarrow>
          if where_valid (iRegexp w') c then
            (let changed = map (apply_values vals) (filter (where_matches (iRegexp w') c) (users w'))
             in (Inr (length changed, changed),
                 w'\<lparr>users := map (\<lambda>u. if where_matches (iRegexp w') c u then apply_values vals u else u)
                                 (users w')\<rparr>))
          else (Inl DatabaseError, w'))"

text \<open>
  A transaction remembers the tables as they were when it began; whatever ends it
  other than a commit that goes through puts them back.
\<close>

record transaction =
  saved_users :: "user list"
  saved_sessions :: "session list"

definition restore :: "transaction \<Rightarrow> 'k database \<Rightarrow> 'k database" where
  "restore t w = w\<lparr>users := saved_users t, sessions := saved_sessions t\<rparr>"

definition sequelize_transaction :: "'k database \<Rightarrow> (exn + transaction) \<times> 'k database" where
  "sequelize_transaction w =
     (case db_call w of
        (Some e, w') \<Rightarrow> (Inl e, w')
      | (None, w') \<Rightarrow> (Inr \<lparr> saved_users = users w', saved_sessions = sessions w' \<rparr>, w'))"

definition commit :: "transaction \<Rightarrow> 'k database \<Rightarrow> (exn + unit) \<times> 'k database" where
  "commit t w =
     (case db_call w of
        (Some e, w') \<Rightarrow> (Inl e, restore t w')
      | (None, w') \<Rightarrow> (Inr (), w'))"

definition rollback :: "transaction \<Rightarrow> 'k database \<Rightarrow> (exn + unit) \<times> 'k database" where
  "rollback t w =
     (case db_call w of
        (Some e, w') \<Rightarrow> (Inl e, restore t w')
      | (None, w') \<Rightarrow> (Inr (), restore t w'))"

text \<open>
  \<^verbatim>\<open>Model.destroy({ where, transaction })\<close>: one DELETE; the result is the number of
  rows deleted.
\<close>

definition destroy :: "where_cond \<Rightarrow> transaction \<Rightarrow> 'k database \<Rightarrow> (exn + nat) \<times> 'k database" where
  "destroy c t w =
     (case db_call w of
        (Some e, w') \<Rightarrow> (Inl e, w')
      | (None, w') \<Rightarrow>
          if where_valid (iRegexp w') c
          then (Inr (length (filter (where_matches (iRegexp w') c) (users w'))),
                w'\<lparr>users := filter (\<lambda>u. \<not> where_matches (iRegexp w') c u) (users w')\<rparr>)
          else (Inl DatabaseError, w'))"

text \<open>
  Modelled from the spec: \<^verbatim>\<open>SessionService.deleteAllSessions\<close> (session.service.ts) is not
  among the sources. The specification says of it that it deletes all sessions of the
  user, inside the transaction it is given.
\<close>

definition deleteAllSessions :: "int \<Rightarrow> transaction \<Rightarrow> 'k database \<Rightarrow> (exn + nat) \<times> 'k database" where
  "deleteAllSessions i t w =
     (case db_call w of
        (Some e, w') \<Rightarrow> (Inl e, w')
      | (None, w') \<Rightarrow>
          (Inr (length (filter (\<lambda>s. session_userId s = i) (sessions w'))),
           w'\<lparr>sessions := filter (\<lambda>s. session_userId s \<noteq> i) (sessions w')\<rparr>))"

section \<open>The mutations of UserService\<close>

text \<open>
  Modelled from the spec: the input objects (\<^verbatim>\<open>UserCreateInputDto\<close>,
  \<^verbatim>\<open>UserUpdateInputDto\<close>, \<^verbatim>\<open>UserDeleteInputDto\<close>) are declared in files that are not
  among the sources. Their properties are the ones the service reads
  (\<^verbatim>\<open>passwordHash\<close>, which carries the password the caller supplies,
  \<^verbatim>\<open>secondName\<close>, \<^verbatim>\<open>firstName\<close>, \<^verbatim>\<open>middleName\<close>, \<^verbatim>\<open>id\<close>), the ones the decorators
  are pointed at (\<^verbatim>\<open>username\<close>, \<^verbatim>\<open>version\<close>) and the remaining column of the data
  model; \<^verbatim>\<open>displayName\<close> is there for a caller that supplies one.
\<close>

record user_create_input =
  data_username :: string
  data_passwordHash :: string
  data_firstName :: string
  data_secondName :: string
  data_middleName :: string
  data_userRoleName :: string
  data_displayName :: "string option"

record user_update_input = user_create_input +
  data_id :: int
  data_version :: int

record user_delete_input =
  delete_id :: int
  delete_version :: int

text \<open>What a mutation resolves to: a user, \<^verbatim>\<open>undefined\<close>, or a number.\<close>

datatype retval = is_UserValue: UserValue user | UndefinedValue | NumberValue nat

text \<open>\<^verbatim>\<open>...data\<close>: the properties of the input that are columns.\<close>

definition spread :: "'a user_create_input_scheme \<Rightarrow> user_attrs" where
  "spread data =
     \<lparr> attr_id = None,
       attr_username = Some (data_username data),
       attr_passwordHash = Some (data_passwordHash data),
       attr_displayName = data_displayName data,
       attr_userRoleName = Some (data_userRoleName data),
       attr_version = None \<rparr>"

definition spread_update :: "user_update_input \<Rightarrow> user_attrs" where
  "spread_update data =
     (spread data)\<lparr>attr_id := Some (data_id data), attr_version := Some (data_version data)\<rparr>"

text \<open>The template \<^verbatim>\<open>`${data.secondName} ${data.firstName} ${data.middleName}`\<close>.\<close>

definition displayName_of :: "'a user_create_input_scheme \<Rightarrow> string" where
  "displayName_of data =
     data_secondName data @ '' '' @ data_firstName data @ '' '' @ data_middleName data"

text \<open>
  \<^verbatim>\<open>UserService.hashPassword\<close> awaits \<^verbatim>\<open>bcrypt.hash(password, rounds)\<close>. The library
  function is a parameter of the model; it may reject.
\<close>

definition hashPassword :: "(string \<Rightarrow> nat \<Rightarrow> exn + string) \<Rightarrow> string \<Rightarrow> nat \<Rightarrow> exn + string" where
  "hashPassword bcrypt_hash password rounds = bcrypt_hash password rounds"

definition notUniqueUserName :: string where
  "notUniqueUserName = ''user:validate:notUniqueUserName''"

definition unableToCreateUser :: string where
  "unableToCreateUser = ''user:create:unableToCreateUser''"

definition unableToUpdateUser :: string where
  "unableToUpdateUser = ''user:update:unableToUpdateUser''"

text \<open>The \<^verbatim>\<open>try\<close> block of \<^verbatim>\<open>userCreate\<close>.\<close>

definition userCreate_try :: "(string \<Rightarrow> nat \<Rightarrow> exn + string) \<Rightarrow> user_create_input \<Rightarrow> 'k database \<Rightarrow> (exn + retval) \<times> 'k database" where
  "userCreate_try bcrypt_hash data w =
     (case hashPassword bcrypt_hash (data_passwordHash data) 12 of
        Inl e \<Rightarrow> (Inl e, w)
      | Inr hash \<Rightarrow>
          (case create ((spread data)\<lparr>attr_displayName := Some (displayName_of data),
                                       attr_passwordHash := Some hash\<rparr>) w of
             (Inl e, w') \<Rightarrow> (Inl e, w')
           | (Inr row, w') \<Rightarrow> (Inr (UserValue row), w')))"

text \<open>The method \<^verbatim>\<open>userCreate\<close> as written, without its decorator.\<close>

definition userCreate_body :: "(string \<Rightarrow> nat \<Rightarrow> exn + string) \<Rightarrow> user_create_input \<Rightarrow> 'k database \<Rightarrow> (exn + retval) \<times> 'k database" where
  "userCreate_body bcrypt_hash data w =
     (case userCreate_try bcrypt_hash data w of
        (Inr res, w') \<Rightarrow> (Inr res, w')
      | (Inl error, w') \<Rightarrow>
          if messageCode error = Some notUniqueUserName
          then (Inl (MessageCodeError notUniqueUserName), w')
          else (Inl (MessageCodeError unableToCreateUser), w'))"

text \<open>
  The \<^verbatim>\<open>try\<close> block of \<^verbatim>\<open>userUpdate\<close>. \<^verbatim>\<open>const [, [val]] = res\<close> takes the first of
  the rows returned, \<^verbatim>\<open>undefined\<close> when there is none.
\<close>

definition userUpdate_try :: "(string \<Rightarrow> nat \<Rightarrow> exn + string) \<Rightarrow> user_update_input \<Rightarrow> 'k database \<Rightarrow> (exn + retval) \<times> 'k database" where
  "userUpdate_try bcrypt_hash data w =
     (case hashPassword bcrypt_hash (data_passwordHash data) 12 of
        Inl e \<Rightarrow> (Inl e, w)
      | Inr hash \<Rightarrow>
          (case update ((spread_update data)\<lparr>attr_displayName := Some (displayName_of data),
                                              attr_passwordHash := Some hash\<rparr>)
                       (WId (data_id data)) w of
             (Inl e, w') \<Rightarrow> (Inl e, w')
           | (Inr res, w') \<Rightarrow>
               (case snd res of
                  [] \<Rightarrow> (Inr UndefinedValue, w')
                | val # _ \<Rightarrow> (Inr (UserValue val), w'))))"

definition userUpdate_body :: "(string \<Rightarrow> nat \<Rightarrow> exn + string) \<Rightarrow> user_update_input \<Rightarrow> 'k database \<Rightarrow> (exn + retval) \<times> 'k database" where
  "userUpdate_body bcrypt_hash data w =
     (case userUpdate_try bcrypt_hash data w of
        (Inr res, w') \<Rightarrow> (Inr res, w')
      | (Inl error, w') \<Rightarrow>
          if messageCode error = Some notUniqueUserName
          then (Inl (MessageCodeError notUniqueUserName), w')
          else (Inl (MessageCodeError unableToUpdateUser), w'))"

text \<open>
  The \<^verbatim>\<open>try\<close> block of \<^verbatim>\<open>userDelete\<close>, with the variable \<^verbatim>\<open>transaction\<close> as the
  \<^verbatim>\<open>catch\<close> block finds it: \<open>None\<close> is \<^verbatim>\<open>undefined\<close>, the value it has until
  \<^verbatim>\<open>this.SEQUELIZE.transaction()\<close> has resolved. \<^verbatim>\<open>transaction.commit()\<close> is called and
  not awaited, so its outcome never reaches the \<^verbatim>\<open>try\<close> block: only its effect on the
  database is kept.
\<close>

definition userDelete_try :: "user_delete_input \<Rightarrow> 'k database \<Rightarrow> (exn + retval) \<times> transaction option \<times> 'k database" where
  "userDelete_try data w =
     (case sequelize_transaction w of
        (Inl e, w1) \<Rightarrow> (Inl e, None, w1)
      | (Inr t, w1) \<Rightarrow>
          (case deleteAllSessions (delete_id data) t w1 of
             (Inl e, w2) \<Rightarrow> (Inl e, Some t, w2)
           | (Inr _, w2) \<Rightarrow>
               (case destroy (WId (delete_id data)) t w2 of
                  (Inl e, w3) \<Rightarrow> (Inl e, Some t, w3)
                | (Inr result, w3) \<Rightarrow> (Inr (NumberValue result), Some t, snd (commit t w3)))))"

text \<open>
  The method \<^verbatim>\<open>userDelete\<close> as written, without its decorator. The \<^verbatim>\<open>catch\<close> block is
  \<^verbatim>\<open>transaction.rollback(); throw new BadRequestException()\<close>: on \<^verbatim>\<open>undefined\<close> the
  first statement raises a \<^verbatim>\<open>TypeError\<close> and the second is not reached; otherwise
  the rollback is started, not awaited, and the exception thrown.
\<close>

definition userDelete_body :: "user_delete_input \<Rightarrow> 'k database \<Rightarrow> (exn + retval) \<times> 'k database" where
  "userDelete_body data w =
     (case userDelete_try data w of
        (Inr result, _, w') \<Rightarrow> (Inr result, w')
      | (Inl error, None, w') \<Rightarrow> (Inl TypeError, w')
      | (Inl error, Some t, w') \<Rightarrow> (Inl BadRequestException, snd (rollback t w')))"

section \<open>The decorators\<close>

text \<open>
  Modelled from the spec: \<^verbatim>\<open>CheckIsValueUnique\<close> is defined in
  \<^verbatim>\<open>../common/decorators\<close>, which is not among the sources. The specification says:
  before insert or update of a unique field, query for an existing row with that value
  (excluding the current id on update); if found, fail with a domain-specific "not
  unique" error. The arguments are the finder method, the field of the input, the
  message code, and the id of the input (\<open>None\<close> for an input that has none); an error
  of the finder is passed on.
\<close>

definition CheckIsValueUnique ::
  "(string \<Rightarrow> 'k database \<Rightarrow> (exn + user_attrs option) \<times> 'k database) \<Rightarrow> ('d \<Rightarrow> string) \<Rightarrow> string
    \<Rightarrow> ('d \<Rightarrow> int option)
    \<Rightarrow> ('d \<Rightarrow> 'k database \<Rightarrow> (exn + retval) \<times> 'k database)
    \<Rightarrow> 'd \<Rightarrow> 'k database \<Rightarrow> (exn + retval) \<times> 'k database" where
  "CheckIsValueUnique finder field code current_id method data w =
     (case finder (field data) w of
        (Inl e, w') \<Rightarrow> (Inl e, w')
      | (Inr None, w') \<Rightarrow> method data w'
      | (Inr (Some found), w') \<Rightarrow>
          if attr_id found = current_id data then method data w'
          else (Inl (MessageCodeError code), w'))"

text \<open>
  Modelled from the spec: \<^verbatim>\<open>OptimisticLocking\<close> is defined in
  \<^verbatim>\<open>../common/decorators\<close>, which is not among the sources. The specification says:
  before mutating or deleting a row, re-read its version column and compare to the
  caller-supplied version; mismatch signals a conflict error distinct from not-found.
  It does not say what the decorator's boolean argument selects; the model carries it
  and does not depend on it. An error of the re-read is passed on.
\<close>

definition OptimisticLocking ::
  "bool \<Rightarrow> (int \<Rightarrow> 'k database \<Rightarrow> (exn + user_attrs option) \<times> 'k database)
    \<Rightarrow> ('d \<Rightarrow> int) \<Rightarrow> ('d \<Rightarrow> int)
    \<Rightarrow> ('d \<Rightarrow> 'k database \<Rightarrow> (exn + retval) \<times> 'k database)
    \<Rightarrow> 'd \<Rightarrow> 'k database \<Rightarrow> (exn + retval) \<times> 'k database" where
  "OptimisticLocking flag reread the_id the_version method data w =
     (case reread (the_id data) w of
        (Inl e, w') \<Rightarrow> (Inl e, w')
      | (Inr None, w') \<Rightarrow> (Inl NotFoundError, w')
      | (Inr (Some found), w') \<Rightarrow>
          if attr_version found = Some (the_version data) then method data w'
          else (Inl ConflictError, w'))"

text \<open>The three mutations as callers reach them: the methods under their decorators.\<close>

definition userCreate :: "(string \<Rightarrow> nat \<Rightarrow> exn + string) \<Rightarrow> user_create_input \<Rightarrow> ('k::linorder) database \<Rightarrow> (exn + retval) \<times> 'k database" where
  "userCreate bcrypt_hash =
     CheckIsValueUnique userNameFind data_username notUniqueUserName (\<lambda>data. None)
       (userCreate_body bcrypt_hash)"

definition userUpdate :: "(string \<Rightarrow> nat \<Rightarrow> exn + string) \<Rightarrow> user_update_input \<Rightarrow> ('k::linorder) database \<Rightarrow> (exn + retval) \<times> 'k database" where
  "userUpdate bcrypt_hash =
     OptimisticLocking True checkVersion data_id data_version
       (CheckIsValueUnique userNameFind data_username notUniqueUserName (\<lambda>data. Some (data_id data))
         (userUpdate_body bcrypt_hash))"

definition userDelete :: "user_delete_input \<Rightarrow> ('k::linorder) database \<Rightarrow> (exn + retval) \<times> 'k database" where
  "userDelete =
     OptimisticLocking False checkVersion delete_id delete_version userDelete_body"

section \<open>Vocabulary of the statements\<close>

text \<open>
  The outcome of the next database call, the database after one call that changes no
  table, and "the next \<open>n\<close> database calls go through".
\<close>

definition next_outcome :: "'k database \<Rightarrow> exn option" where
  "next_outcome w = (case faults w of [] \<Rightarrow> None | f # _ \<Rightarrow> f)"

definition advance :: "'k database \<Rightarrow> 'k database" where
  "advance w = w\<lparr>faults := tl (faults w)\<rparr>"

definition goes_through :: "nat \<Rightarrow> 'k database \<Rightarrow> bool" where
  "goes_through n w = list_all (\<lambda>f. f = None) (take n (faults w))"


text \<open>
  The error a \<^verbatim>\<open>catch\<close> block of \<^verbatim>\<open>userCreate\<close> or \<^verbatim>\<open>userUpdate\<close> throws for the
  error it caught, and the rows the two methods write.
\<close>

definition surfaced_code :: "string \<Rightarrow> exn \<Rightarrow> exn" where
  "surfaced_code fallback error =
     MessageCodeError (if messageCode error = Some notUniqueUserName then notUniqueUserName else fallback)"

definition created_row :: "user_create_input \<Rightarrow> string \<Rightarrow> int \<Rightarrow> user" where
  "created_row data hash i =
     \<lparr> user_id = i, username = data_username data, passwordHash = hash,
       displayName = displayName_of data, userRoleName = data_userRoleName data, version = 0 \<rparr>"

definition updated_row :: "user_update_input \<Rightarrow> string \<Rightarrow> user" where
  "updated_row data hash =
     \<lparr> user_id = data_id data, username = data_username data, passwordHash = hash,
       displayName = displayName_of data, userRoleName = data_userRoleName data,
       version = data_version data \<rparr>"

section \<open>Sample data\<close>

text \<open>
  A small store for the concrete instances: two users with a session each, a
  regular-expression engine that knows the empty pattern (which matches every string)
  and the pattern built for the filter \<^verbatim>\<open>L\<close> (a name that begins with the letter, in
  either case, at the start or after a space) and refuses every other pattern, a
  stand-in for \<^verbatim>\<open>bcrypt.hash\<close>, the byte order of strings as collation, ties
  delivered in the order of the ids, and no rejected call.
\<close>

fun after_space :: "char \<Rightarrow> string \<Rightarrow> bool" where
  "after_space c [] = False"
| "after_space c (x # xs) = ((x = CHR '' '' \<and> take 1 xs = [c]) \<or> after_space c xs)"

definition sample_L :: "string \<Rightarrow> bool" where
  "sample_L s = (take 1 s = ''L'' \<or> take 1 s = ''l''
                 \<or> after_space (CHR ''L'') s \<or> after_space (CHR ''l'') s)"

definition sample_any :: "string \<Rightarrow> bool" where
  "sample_any s = True"

definition sample_iRegexp :: "string \<Rightarrow> (string \<Rightarrow> bool) option" where
  "sample_iRegexp p =
     (if p = [] then Some sample_any
      else if p = ''(^L)|( L)'' then Some sample_L
      else None)"

definition sample_bcrypt :: "string \<Rightarrow> nat \<Rightarrow> exn + string" where
  "sample_bcrypt password rounds = Inr (''$2b$'' @ rev password)"

definition alice :: user where
  "alice = \<lparr> user_id = 1, username = ''alice'', passwordHash = ''$2b$a'',
             displayName = ''Liddell Alice P'', userRoleName = ''admin'', version = 3 \<rparr>"

definition bob :: user where
  "bob = \<lparr> user_id = 2, username = ''bob'', passwordHash = ''$2b$b'',
           displayName = ''Carroll Bob C'', userRoleName = ''user'', version = 0 \<rparr>"

definition sample_db :: "string database" where
  "sample_db =
     \<lparr> users = [alice, bob],
       sessions = [\<lparr> session_id = 10, session_userId = 1 \<rparr>, \<lparr> session_id = 11, session_userId = 2 \<rparr>],
       next_id = 3, iRegexp = sample_iRegexp, collation = (\<lambda>s. s),
       tie_rank = (\<lambda>u. nat (user_id u)), faults = [] \<rparr>"

definition sample_create :: user_create_input where
  "sample_create =
     \<lparr> data_username = ''carol'', data_passwordHash = ''pw'', data_firstName = ''Carol'',
       data_secondName = ''Danvers'', data_middleName = ''S'', data_userRoleName = ''user'',
       data_displayName = Some ''Captain'' \<rparr>"

definition sample_update :: user_update_input where
  "sample_update =
     \<lparr> data_username = ''alice'', data_passwordHash = ''pw'', data_firstName = ''Alice'',
       data_secondName = ''Hargreaves'', data_middleName = ''P'', data_userRoleName = ''admin'',
       data_displayName = Some ''Captain'', data_id = 1, data_version = 3 \<rparr>"

definition sample_delete :: user_delete_input where
  "sample_delete = \<lparr> delete_id = 1, delete_version = 3 \<rparr>"

section \<open>Database calls and queries\<close>

lemma db_call_eq: "db_call w = (next_outcome w, advance w)"
  by (cases "faults w") (simp_all add: db_call_def next_outcome_def advance_def)

lemma advance_simps [simp]:
  "users (advance w) = users w"
  "sessions (advance w) = sessions w"
  "next_id (advance w) = next_id w"
  "iRegexp (advance w) = iRegexp w"
  "collation (advance w) = collation w"
  "tie_rank (advance w) = tie_rank w"
  "faults (advance w) = tl (faults w)"
  by (simp_all add: advance_def)

lemma goes_through_Suc:
  "goes_through (Suc n) w \<longleftrightarrow> next_outcome w = None \<and> goes_through n (advance w)"
  by (cases "faults w") (auto simp: goes_through_def next_outcome_def advance_def)

lemma goes_through_0 [simp]: "goes_through 0 w"
  by (simp add: goes_through_def)

lemma goes_through_1: "goes_through (Suc 0) w \<longleftrightarrow> next_outcome w = None"
  by (simp add: goes_through_Suc)

lemmas sample_defs =
  sample_db_def alice_def bob_def sample_iRegexp_def sample_bcrypt_def sample_create_def
  sample_update_def sample_delete_def next_outcome_def advance_def goes_through_def

lemma where_matches_WId [simp]: "where_matches rx (WId i) = (\<lambda>u. user_id u = i)"
  by (rule ext) simp

lemma where_matches_WUsername [simp]: "where_matches rx (WUsername n) = (\<lambda>u. username u = n)"
  by (rule ext) simp

lemma where_matches_IRegexp:
  "rx p = Some m \<Longrightarrow> where_matches rx (WDisplayNameIRegexp p) = (\<lambda>u. m (displayName u))"
  by (rule ext) simp

lemma where_matches_WOr:
  "where_matches rx (WOr cs) = (\<lambda>u. list_ex (\<lambda>c. c \<noteq> WEmpty \<and> where_matches rx c u) cs)"
  by (rule ext) simp

lemma findAll_eq:
  "findAll opts w =
     (case next_outcome w of
        Some e \<Rightarrow> (Inl e, advance w)
      | None \<Rightarrow>
          if where_valid (iRegexp w) (opt_where opts)
             \<and> \<not> negative (opt_limit opts) \<and> \<not> negative (opt_offset opts)
          then (Inr (apply_limit (opt_limit opts)
                      (apply_offset (opt_offset opts)
                        (apply_order (opt_order opts) (collation w) (tie_rank w)
                          (filter (where_matches (iRegexp w) (opt_where opts)) (users w))))),
                advance w)
          else (Inl DatabaseError, advance w))"
  by (simp add: findAll_def db_call_eq split: option.splits)

lemma snd_findAll [simp]: "snd (findAll opts w) = advance w"
  by (simp add: findAll_eq split: option.splits)

lemma first_of_take_filter:
  "(case take (Suc 0) (filter P xs) of [] \<Rightarrow> None | r # _ \<Rightarrow> Some (f r)) = map_option f (find P xs)"
  by (induction xs) auto

lemma findOne_lookup_eq:
  "findOne (lookup c attrs) w =
     (case next_outcome w of
        Some e \<Rightarrow> (Inl e, advance w)
      | None \<Rightarrow>
          if where_valid (iRegexp w) c
          then (Inr (map_option (project attrs) (find (where_matches (iRegexp w) c) (users w))), advance w)
          else (Inl DatabaseError, advance w))"
  by (simp add: findOne_def lookup_def findAll_eq negative_def apply_limit_def apply_offset_def
      apply_order_def first_of_take_filter split: option.splits)

section \<open>What the read operations compute\<close>



lemma checkVersion_eq:
  "checkVersion i w =
     (case next_outcome w of
        Some e \<Rightarrow> (Inl BadRequestException, advance w)
      | None \<Rightarrow> (Inr (map_option (project (Some [''version''])) (find (\<lambda>u. user_id u = i) (users w))),
                 advance w))"
  by (simp add: checkVersion_def findOne_lookup_eq split: option.splits) 

lemma userNameFind_eq:
  "userNameFind n w =
     (case next_outcome w of
        Some e \<Rightarrow> (Inl BadRequestException, advance w)
      | None \<Rightarrow> (Inr (map_option (project (Some [''id'', ''username''])) (find (\<lambda>u. username u = n) (users w))),
                 advance w))"
  by (simp add: userNameFind_def findOne_lookup_eq split: option.splits) 


lemma userList_eq:
  "userList textFilter page paging w =
     (case next_outcome w of
        Some e \<Rightarrow> (Inl BadRequestException, advance w)
      | None \<Rightarrow>
          (case iRegexp w (iRegexp_of textFilter) of
             None \<Rightarrow> (Inl BadRequestException, advance w)
           | Some m \<Rightarrow>
               if 0 \<le> paging \<and> 0 \<le> (page - 1) * paging
               then (Inr (take (nat paging) (drop (nat ((page - 1) * paging))
                       (sort_key (\<lambda>u. collation w (displayName u))
                          (sort_key (tie_rank w)
                             (filter (\<lambda>u. m (displayName u)) (users w)))))), advance w)
               else (Inl BadRequestException, advance w)))"
  by (auto simp add: userList_def findAll_eq negative_def apply_limit_def apply_offset_def
      apply_order_def where_matches_IRegexp split: option.splits)

text \<open>The pattern \<^verbatim>\<open>userList\<close> passes to the engine, spelled out.\<close>

lemma iRegexp_of_eq:
  "iRegexp_of textFilter =
     (case textFilter of
        None \<Rightarrow> []
      | Some t \<Rightarrow> if t = [] then [] else ''(^'' @ t @ '')|( '' @ t @ '')'')"
  by (simp add: iRegexp_of_def isEmpty_def split: option.splits)

lemma filter_singleton_distinct:
  "distinct xs \<Longrightarrow> k \<in> set xs \<Longrightarrow> (\<And>x. x \<in> set xs \<Longrightarrow> P x \<longleftrightarrow> x = k) \<Longrightarrow> filter P xs = [k]"
proof (induction xs)
  case Nil
  then show ?case by simp
next
  case (Cons a xs)
  show ?case
  proof (cases "a = k")
    case True
    with Cons.prems have "\<forall>x \<in> set xs. \<not> P x" by auto
    then have "filter P xs = []" by (simp add: filter_empty_conv)
    with True Cons.prems show ?thesis by simp
  next
    case False
    with Cons show ?thesis by auto
  qed
qed

text \<open>
  The rank decides nothing but the order among ties, and it can decide it either way:
  every arrangement of distinct rows that is ascending in the key is what the two sorts
  give under some rank.
\<close>

lemma every_tie_order_has_a_rank:
  fixes k :: "'a \<Rightarrow> 'b::linorder"
  assumes "distinct rows" and "mset all = mset rows" and "sorted (map k all)"
  shows "\<exists>rank :: 'a \<Rightarrow> nat. sort_key k (sort_key rank rows) = all"
proof -
  define rank where "rank = (\<lambda>u. length (takeWhile (\<lambda>v. v \<noteq> u) all))"
  from assms(1,2) have d: "distinct all"
    using mset_eq_imp_distinct_iff by blast
  have s: "set all = set rows" using assms(2) by (rule mset_eq_setD)
  have pos: "rank (all ! i) = i" if "i < length all" for i
  proof -
    have "takeWhile (\<lambda>v. v \<noteq> all ! i) all = take i all"
      using d that by (intro takeWhile_eq_take_P_nth) (auto simp: nth_eq_iff_index_eq)
    with that show ?thesis by (simp add: rank_def)
  qed
  have "map rank all = [0..<length all]"
    by (rule nth_equalityI) (simp_all add: pos)
  then have srt: "sorted (map rank all)" by simp
  have inj: "x = y" if "x \<in> set all" "y \<in> set all" "rank x = rank y" for x y
    using that pos by (metis in_set_conv_nth)
  have "sort_key rank rows = all"
  proof (rule properties_for_sort_key)
    show "mset all = mset rows" by (rule assms(2))
    show "sorted (map rank all)" by (rule srt)
    fix x assume x: "x \<in> set all"
    have "filter (\<lambda>y. rank x = rank y) all = [x]"
      using d x inj by (intro filter_singleton_distinct) auto
    moreover have "filter (\<lambda>y. rank x = rank y) rows = [x]"
      using assms(1) x inj s by (intro filter_singleton_distinct) auto
    ultimately show "filter (\<lambda>y. rank x = rank y) all = filter (\<lambda>y. rank x = rank y) rows"
      by simp
  qed
  moreover have "sort_key k all = all"
    using assms(3) by (intro properties_for_sort_key) simp_all
  ultimately show ?thesis by auto
qed

text \<open>
  So every order of the matching users that is ascending in displayName is the order in
  which \<^verbatim>\<open>userList\<close> pages through them, for some choice of the engine.
\<close>

lemma userList_admits_every_tie_order:
  assumes "next_outcome w = None" and "iRegexp w (iRegexp_of textFilter) = Some m"
    and "1 \<le> page" and "0 \<le> paging" and "distinct (users w)"
    and "mset all = mset (filter (\<lambda>u. m (displayName u)) (users w))"
    and "sorted (map (\<lambda>u. collation w (displayName u)) all)"
  shows "\<exists>rank. fst (userList textFilter page paging (w\<lparr>tie_rank := rank\<rparr>)) =
           Inr (take (nat paging) (drop (nat ((page - 1) * paging)) all))"
proof -
  from assms(5) have "distinct (filter (\<lambda>u. m (displayName u)) (users w))" by simp
  from every_tie_order_has_a_rank [OF this assms(6,7)] obtain rank :: "user \<Rightarrow> nat" where
    r: "sort_key (\<lambda>u. collation w (displayName u))
          (sort_key rank (filter (\<lambda>u. m (displayName u)) (users w))) = all"
    by blast
  from assms(3,4) have "0 \<le> (page - 1) * paging" by simp
  with assms(1,2,4) r
  have "fst (userList textFilter page paging (w\<lparr>tie_rank := rank\<rparr>)) =
           Inr (take (nat paging) (drop (nat ((page - 1) * paging)) all))"
    by (simp add: userList_eq next_outcome_def)
  then show ?thesis by blast
qed

lemma list_ex_WOr_map_WId [simp]:
  "list_ex (\<lambda>c. c \<noteq> WEmpty \<and> where_matches rx c u) (map WId is) \<longleftrightarrow> user_id u \<in> set is"
  by (induction "is") auto

lemma list_ex_WOr_map_WUsername [simp]:
  "list_ex (\<lambda>c. c \<noteq> WEmpty \<and> where_matches rx c u) (map WUsername ns) \<longleftrightarrow> username u \<in> set ns"
  by (induction ns) auto

lemma list_all_valid_WId [simp]: "list_all (where_valid rx) (map WId is)"
  by (induction "is") auto

lemma list_all_valid_WUsername [simp]: "list_all (where_valid rx) (map WUsername ns)"
  by (induction ns) auto

text \<open>
  \<^verbatim>\<open>usersFind\<close> selects the users whose id is among the ids or whose username is among
  the usernames.
\<close>

lemma usersFind_eq:
  "usersFind data w =
     (case next_outcome w of
        Some e \<Rightarrow> (Inl BadRequestException, advance w)
      | None \<Rightarrow> (Inr (filter (\<lambda>u. user_id u \<in> set (ids data) \<or> username u \<in> set (usernames data))
                        (users w)), advance w))"
  by (cases "ids data"; cases "usernames data")
     (simp_all add: usersFind_def findAll_eq lookup_def negative_def apply_limit_def apply_offset_def
      apply_order_def where_matches_WOr split: option.splits)








section \<open>What the mutations compute\<close>

lemma create_eq:
  "create vals w =
     (case next_outcome w of
        Some e \<Rightarrow> (Inl e, advance w)
      | None \<Rightarrow>
          (case attr_username vals of None \<Rightarrow> (Inl DatabaseError, advance w) | Some n \<Rightarrow>
          (case attr_passwordHash vals of None \<Rightarrow> (Inl DatabaseError, advance w) | Some h \<Rightarrow>
          (case attr_displayName vals of None \<Rightarrow> (Inl DatabaseError, advance w) | Some d \<Rightarrow>
          (case attr_userRoleName vals of None \<Rightarrow> (Inl DatabaseError, advance w) | Some r \<Rightarrow>
             (let row = \<lparr> user_id = (case attr_id vals of None \<Rightarrow> next_id w | Some i \<Rightarrow> i),
                          username = n, passwordHash = h, displayName = d, userRoleName = r,
                          version = (case attr_version vals of None \<Rightarrow> 0 | Some v \<Rightarrow> v) \<rparr>
              in (Inr row, (advance w)\<lparr>users := users w @ [row], next_id := next_id w + 1\<rparr>)))))))"
  by (simp add: create_def db_call_eq split: option.splits)

lemma userCreate_try_eq:
  "userCreate_try bc data w =
     (case bc (data_passwordHash data) 12 of
        Inl e \<Rightarrow> (Inl e, w)
      | Inr hash \<Rightarrow>
          (case next_outcome w of
             Some e \<Rightarrow> (Inl e, advance w)
           | None \<Rightarrow>
               (Inr (UserValue (created_row data hash (next_id w))),
                (advance w)\<lparr>users := users w @ [created_row data hash (next_id w)],
                             next_id := next_id w + 1\<rparr>)))"
  by (simp add: userCreate_try_def hashPassword_def create_eq spread_def created_row_def Let_def
      split: sum.splits option.splits)

lemma userCreate_body_eq:
  "userCreate_body bc data w =
     (case bc (data_passwordHash data) 12 of
        Inl e \<Rightarrow> (Inl (surfaced_code unableToCreateUser e), w)
      | Inr hash \<Rightarrow>
          (case next_outcome w of
             Some e \<Rightarrow> (Inl (surfaced_code unableToCreateUser e), advance w)
           | None \<Rightarrow>
               (Inr (UserValue (created_row data hash (next_id w))),
                (advance w)\<lparr>users := users w @ [created_row data hash (next_id w)],
                             next_id := next_id w + 1\<rparr>)))"
  by (simp add: userCreate_body_def userCreate_try_eq surfaced_code_def
      split: sum.splits option.splits)

lemma update_eq:
  "update vals c w =
     (case next_outcome w of
        Some e \<Rightarrow> (Inl e, advance w)
      | None \<Rightarrow>
          if where_valid (iRegexp w) c then
            (let changed = map (apply_values vals) (filter (where_matches (iRegexp w) c) (users w))
             in (Inr (length changed, changed),
                 (advance w)\<lparr>users := map (\<lambda>u. if where_matches (iRegexp w) c u then apply_values vals u else u)
                                 (users w)\<rparr>))
          else (Inl DatabaseError, advance w))"
  by (simp add: update_def db_call_eq split: option.splits)

lemma apply_values_update:
  "apply_values ((spread_update data)\<lparr>attr_displayName := Some (displayName_of data),
                                      attr_passwordHash := Some hash\<rparr>) u = updated_row data hash"
  by (simp add: apply_values_def spread_update_def spread_def updated_row_def)

lemma userUpdate_try_eq:
  "userUpdate_try bc data w =
     (case bc (data_passwordHash data) 12 of
        Inl e \<Rightarrow> (Inl e, w)
      | Inr hash \<Rightarrow>
          (case next_outcome w of
             Some e \<Rightarrow> (Inl e, advance w)
           | None \<Rightarrow>
               (Inr (if list_ex (\<lambda>u. user_id u = data_id data) (users w)
                     then UserValue (updated_row data hash) else UndefinedValue),
                (advance w)\<lparr>users := map (\<lambda>u. if user_id u = data_id data then updated_row data hash else u)
                                       (users w)\<rparr>)))"
proof -
  have first: "(case map f (filter P xs) of [] \<Rightarrow> a | val # _ \<Rightarrow> b val) =
      (if list_ex P xs then b (f (hd (filter P xs))) else a)" for f :: "user \<Rightarrow> user" and P xs a and b :: "user \<Rightarrow> 'z"
    by (induction xs) auto
  show ?thesis
    by (simp add: userUpdate_try_def hashPassword_def update_eq apply_values_update first Let_def
        split: sum.splits option.splits)
qed

lemma userUpdate_body_eq:
  "userUpdate_body bc data w =
     (case bc (data_passwordHash data) 12 of
        Inl e \<Rightarrow> (Inl (surfaced_code unableToUpdateUser e), w)
      | Inr hash \<Rightarrow>
          (case next_outcome w of
             Some e \<Rightarrow> (Inl (surfaced_code unableToUpdateUser e), advance w)
           | None \<Rightarrow>
               (Inr (if list_ex (\<lambda>u. user_id u = data_id data) (users w)
                     then UserValue (updated_row data hash) else UndefinedValue),
                (advance w)\<lparr>users := map (\<lambda>u. if user_id u = data_id data then updated_row data hash else u)
                                       (users w)\<rparr>)))"
  by (simp add: userUpdate_body_def userUpdate_try_eq surfaced_code_def
      split: sum.splits option.splits)



lemma project_simps [simp]:
  "attr_id (project (Some [''id'', ''username'']) r) = Some (user_id r)"
  "attr_version (project (Some [''version'']) r) = Some (version r)"
  by (simp_all add: project_def)

lemma userCreate_eq:
  "userCreate bc data w =
     (case next_outcome w of
        Some e \<Rightarrow> (Inl BadRequestException, advance w)
      | None \<Rightarrow>
          (case find (\<lambda>u. username u = data_username data) (users w) of
             None \<Rightarrow> userCreate_body bc data (advance w)
           | Some r \<Rightarrow> (Inl (MessageCodeError notUniqueUserName), advance w)))"
  by (simp add: userCreate_def CheckIsValueUnique_def userNameFind_eq split: option.splits)

lemma locking_eq:
  "OptimisticLocking flag checkVersion the_id the_version method data w =
     (case next_outcome w of
        Some e \<Rightarrow> (Inl BadRequestException, advance w)
      | None \<Rightarrow>
          (case find (\<lambda>u. user_id u = the_id data) (users w) of
             None \<Rightarrow> (Inl NotFoundError, advance w)
           | Some r \<Rightarrow>
               if version r = the_version data then method data (advance w)
               else (Inl ConflictError, advance w)))"
  by (simp add: OptimisticLocking_def checkVersion_eq split: option.splits)

lemma unique_update_eq:
  "CheckIsValueUnique userNameFind data_username code (\<lambda>data. Some (data_id data)) method data w =
     (case next_outcome w of
        Some e \<Rightarrow> (Inl BadRequestException, advance w)
      | None \<Rightarrow>
          (case find (\<lambda>u. username u = data_username data) (users w) of
             None \<Rightarrow> method data (advance w)
           | Some r \<Rightarrow>
               if user_id r = data_id data then method data (advance w)
               else (Inl (MessageCodeError code), advance w)))"
  by (simp add: CheckIsValueUnique_def userNameFind_eq split: option.splits)

lemma userUpdate_eq:
  "userUpdate bc data w =
     (case next_outcome w of
        Some e \<Rightarrow> (Inl BadRequestException, advance w)
      | None \<Rightarrow>
          (case find (\<lambda>u. user_id u = data_id data) (users w) of
             None \<Rightarrow> (Inl NotFoundError, advance w)
           | Some r0 \<Rightarrow>
               if version r0 = data_version data then
                 (case next_outcome (advance w) of
                    Some e \<Rightarrow> (Inl BadRequestException, advance (advance w))
                  | None \<Rightarrow>
                      (case find (\<lambda>u. username u = data_username data) (users w) of
                         None \<Rightarrow> userUpdate_body bc data (advance (advance w))
                       | Some r \<Rightarrow>
                           if user_id r = data_id data
                           then userUpdate_body bc data (advance (advance w))
                           else (Inl (MessageCodeError notUniqueUserName), advance (advance w))))
               else (Inl ConflictError, advance w)))"
  by (simp add: userUpdate_def locking_eq unique_update_eq split: option.splits)

lemma userDelete_eq:
  "userDelete data w =
     (case next_outcome w of
        Some e \<Rightarrow> (Inl BadRequestException, advance w)
      | None \<Rightarrow>
          (case find (\<lambda>u. user_id u = delete_id data) (users w) of
             None \<Rightarrow> (Inl NotFoundError, advance w)
           | Some r \<Rightarrow>
               if version r = delete_version data then userDelete_body data (advance w)
               else (Inl ConflictError, advance w)))"
  by (simp add: userDelete_def locking_eq)

lemmas delete_defs =
  userDelete_body_def userDelete_try_def sequelize_transaction_def deleteAllSessions_def
  destroy_def commit_def rollback_def restore_def db_call_eq

lemma userDelete_body_result:
  "fst (userDelete_body data w) = Inr v \<Longrightarrow>
     v = NumberValue (length (filter (\<lambda>u. user_id u = delete_id data) (users w)))"
  by (auto simp: delete_defs split: option.splits prod.splits sum.splits if_splits)

text \<open>
  Whatever the outcomes of the database calls, \<^verbatim>\<open>userDelete\<close> leaves both tables as
  they were or removes the user's rows from both: the sessions of the user are gone if
  and only if the user row is.
\<close>

lemma userDelete_body_tables:
  "(users (snd (userDelete_body data w)) = users w
      \<and> sessions (snd (userDelete_body data w)) = sessions w)
   \<or> (users (snd (userDelete_body data w)) = filter (\<lambda>u. user_id u \<noteq> delete_id data) (users w)
      \<and> sessions (snd (userDelete_body data w)) =
          filter (\<lambda>s. session_userId s \<noteq> delete_id data) (sessions w))"
  by (auto simp: delete_defs split: option.splits prod.splits sum.splits if_splits)

text \<open>
  An error of \<^verbatim>\<open>userDelete\<close> leaves both tables as they were; it is a
  \<^verbatim>\<open>BadRequestException\<close> unless the transaction could not be opened.
\<close>

lemma userDelete_body_error:
  "fst (userDelete_body data w) = Inl e \<Longrightarrow>
     users (snd (userDelete_body data w)) = users w
     \<and> sessions (snd (userDelete_body data w)) = sessions w
     \<and> e = (if next_outcome w = None then BadRequestException else TypeError)"
  by (auto simp: delete_defs split: option.splits prod.splits sum.splits if_splits)

lemma find_list_ex: "find P xs = Some r \<Longrightarrow> list_ex P xs"
  by (induction xs) (auto split: if_splits)

lemma userCreate_body_success:
  assumes "fst (userCreate_body bc data w) = Inr v"
  shows "\<exists>hash. bc (data_passwordHash data) 12 = Inr hash
           \<and> v = UserValue (created_row data hash (next_id w))
           \<and> users (snd (userCreate_body bc data w)) = users w @ [created_row data hash (next_id w)]"
  using assms
  by (auto simp: userCreate_body_eq split: option.splits sum.splits)

lemma userCreate_success:
  assumes "fst (userCreate bc data w) = Inr v"
  shows "\<exists>hash. bc (data_passwordHash data) 12 = Inr hash
           \<and> v = UserValue (created_row data hash (next_id w))
           \<and> users (snd (userCreate bc data w)) = users w @ [created_row data hash (next_id w)]"
  using assms
  by (auto simp: userCreate_eq userCreate_body_eq split: option.splits sum.splits)

lemma userUpdate_body_success:
  assumes "fst (userUpdate_body bc data w) = Inr v"
  shows "\<exists>hash. bc (data_passwordHash data) 12 = Inr hash
           \<and> v = (if list_ex (\<lambda>u. user_id u = data_id data) (users w)
                  then UserValue (updated_row data hash) else UndefinedValue)
           \<and> users (snd (userUpdate_body bc data w)) =
               map (\<lambda>u. if user_id u = data_id data then updated_row data hash else u) (users w)"
  using assms
  by (auto simp: userUpdate_body_eq split: option.splits sum.splits if_splits)

lemma userUpdate_success:
  assumes "fst (userUpdate bc data w) = Inr v"
  shows "\<exists>hash. bc (data_passwordHash data) 12 = Inr hash
           \<and> v = UserValue (updated_row data hash)
           \<and> users (snd (userUpdate bc data w)) =
               map (\<lambda>u. if user_id u = data_id data then updated_row data hash else u) (users w)"
  using assms
  by (auto simp: userUpdate_eq userUpdate_body_eq dest: find_list_ex
      split: option.splits sum.splits if_splits)

lemma userDelete_success:
  assumes "fst (userDelete data w) = Inr v"
  shows "v = NumberValue (length (filter (\<lambda>u. user_id u = delete_id data) (users w)))"
  using assms userDelete_body_result [of data "advance w" v]
  by (auto simp: userDelete_eq split: option.splits if_splits)

section \<open>The claims\<close>

subsection \<open>C1: the transaction of userDelete\<close>

text \<open>
  Claim C1 says that \<^verbatim>\<open>userDelete\<close> deletes the sessions and the user row in one
  transaction, that a failure of any step rolls both deletions back, and that the
  failure reaches the caller as a bad-request error. The tables are kept consistent
  (\<open>userDelete_body_tables\<close>), but two failures do not reach the caller as the claim
  says. On the sample store, with the version check passing: when the call that opens
  the transaction is rejected, the \<^verbatim>\<open>catch\<close> block reads \<^verbatim>\<open>rollback\<close> of
  \<^verbatim>\<open>undefined\<close> and the caller gets a \<^verbatim>\<open>TypeError\<close>; when the commit is rejected,
  nobody awaits it, the caller gets the count 1 of deleted rows, and both users are
  still stored.
\<close>

theorem userDelete_failure_not_bad_request:
  "fst (userDelete sample_delete (sample_db\<lparr>faults := [None, Some (OtherError ''no connection'')]\<rparr>))
     = Inl TypeError
   \<and> fst (userDelete sample_delete
            (sample_db\<lparr>faults := [None, None, None, None, Some (OtherError ''no connection'')]\<rparr>))
     = Inr (NumberValue 1)
   \<and> users (snd (userDelete sample_delete
            (sample_db\<lparr>faults := [None, None, None, None, Some (OtherError ''no connection'')]\<rparr>)))
     = [alice, bob]"
  by (simp add: userDelete_eq delete_defs sample_defs)

subsection \<open>C2: the version check\<close>

text \<open>
  Claim C2: \<^verbatim>\<open>userUpdate\<close> and \<^verbatim>\<open>userDelete\<close> take the version the caller read as a
  field of their input. When the re-read of the row goes through (it is
  \<^verbatim>\<open>checkVersion\<close>, which returns the version column of the first row with the id) and
  the stored version differs from the supplied one, either operation fails with the
  conflict error and both tables are left as they were; when there is no row with the
  id it fails with the not-found error, which is a different error.
\<close>

theorem stale_version_conflict:
  assumes "goes_through 1 w"
  shows "(\<forall>r. find (\<lambda>row. user_id row = data_id u) (users w) = Some r \<and> version r \<noteq> data_version u \<longrightarrow>
            fst (userUpdate bc u w) = Inl ConflictError
            \<and> users (snd (userUpdate bc u w)) = users w
            \<and> sessions (snd (userUpdate bc u w)) = sessions w)
         \<and> (\<forall>r. find (\<lambda>row. user_id row = delete_id d) (users w) = Some r \<and> version r \<noteq> delete_version d \<longrightarrow>
            fst (userDelete d w) = Inl ConflictError
            \<and> users (snd (userDelete d w)) = users w
            \<and> sessions (snd (userDelete d w)) = sessions w)
         \<and> (find (\<lambda>row. user_id row = data_id u) (users w) = None \<longrightarrow>
            fst (userUpdate bc u w) = Inl NotFoundError)
         \<and> (find (\<lambda>row. user_id row = delete_id d) (users w) = None \<longrightarrow>
            fst (userDelete d w) = Inl NotFoundError)
         \<and> ConflictError \<noteq> NotFoundError
         \<and> fst (checkVersion (data_id u) w) =
             Inr (map_option (project (Some [''version''])) (find (\<lambda>row. user_id row = data_id u) (users w)))"
  using assms
  by (auto simp: goes_through_1 userUpdate_eq userDelete_eq checkVersion_eq)

text \<open>
  An instance: the sample store holds user 1 at version 3, and the caller supplies
  version 2; and a delete of the id 7, which is not stored.
\<close>

theorem stale_version_conflict_witness:
  "goes_through 1 sample_db
   \<and> find (\<lambda>row. user_id row = 1) (users sample_db) = Some alice \<and> version alice \<noteq> 2
   \<and> fst (userUpdate sample_bcrypt (sample_update\<lparr>data_version := 2\<rparr>) sample_db) = Inl ConflictError
   \<and> fst (userDelete (sample_delete\<lparr>delete_version := 2\<rparr>) sample_db) = Inl ConflictError
   \<and> fst (userDelete (sample_delete\<lparr>delete_id := 7\<rparr>) sample_db) = Inl NotFoundError
   \<and> users (snd (userDelete (sample_delete\<lparr>delete_version := 2\<rparr>) sample_db)) = [alice, bob]"
proof -
  have h: "goes_through 1 sample_db" by (simp add: sample_defs)
  have f: "find (\<lambda>row. user_id row = 1) (users sample_db) = Some alice" "version alice \<noteq> 2"
    "find (\<lambda>row. user_id row = 7) (users sample_db) = None"
    "users sample_db = [alice, bob]"
    by (simp_all add: sample_defs)
  have i: "data_id (sample_update\<lparr>data_version := 2\<rparr>) = 1" "data_version (sample_update\<lparr>data_version := 2\<rparr>) = 2"
    "delete_id (sample_delete\<lparr>delete_version := 2\<rparr>) = 1" "delete_version (sample_delete\<lparr>delete_version := 2\<rparr>) = 2"
    "delete_id (sample_delete\<lparr>delete_id := 7\<rparr>) = 7"
    by (simp_all add: sample_defs)
  from stale_version_conflict [OF h, of "sample_update\<lparr>data_version := 2\<rparr>" sample_bcrypt
      "sample_delete\<lparr>delete_version := 2\<rparr>"]
    stale_version_conflict [OF h, of "sample_update\<lparr>data_version := 2\<rparr>" sample_bcrypt
      "sample_delete\<lparr>delete_id := 7\<rparr>"] h f i
  show ?thesis by simp
qed

subsection \<open>C3: the uniqueness check of the username\<close>

text \<open>
  Claim C3: when the lookup by username (\<^verbatim>\<open>userNameFind\<close>, which returns id and username
  of the first row with the username) goes through and finds a row, \<^verbatim>\<open>userCreate\<close>
  fails with the message code \<^verbatim>\<open>user:validate:notUniqueUserName\<close> and inserts nothing;
  \<^verbatim>\<open>userUpdate\<close>, once its version check has passed, fails in the same way and updates
  nothing when the row found has another id, and goes on to the update itself when the
  row found is the one being updated.
\<close>

theorem taken_username_rejected:
  "(\<forall>r. goes_through 1 w \<and> find (\<lambda>row. username row = data_username c) (users w) = Some r \<longrightarrow>
       fst (userCreate bc c w) = Inl (MessageCodeError ''user:validate:notUniqueUserName'')
       \<and> users (snd (userCreate bc c w)) = users w)
   \<and> (\<forall>r0 r. goes_through 2 w
         \<and> find (\<lambda>row. user_id row = data_id u) (users w) = Some r0 \<and> version r0 = data_version u
         \<and> find (\<lambda>row. username row = data_username u) (users w) = Some r \<and> user_id r \<noteq> data_id u \<longrightarrow>
       fst (userUpdate bc u w) = Inl (MessageCodeError ''user:validate:notUniqueUserName'')
       \<and> users (snd (userUpdate bc u w)) = users w)
   \<and> (\<forall>r0 r. goes_through 2 w
         \<and> find (\<lambda>row. user_id row = data_id u) (users w) = Some r0 \<and> version r0 = data_version u
         \<and> find (\<lambda>row. username row = data_username u) (users w) = Some r \<and> user_id r = data_id u \<longrightarrow>
       userUpdate bc u w = userUpdate_body bc u (advance (advance w)))
   \<and> (goes_through 1 w \<longrightarrow>
       fst (userNameFind (data_username c) w) =
         Inr (map_option (project (Some [''id'', ''username'']))
                (find (\<lambda>row. username row = data_username c) (users w))))"
  by (auto simp: goes_through_Suc numeral_2_eq_2 userCreate_eq userUpdate_eq userNameFind_eq
      notUniqueUserName_def)

text \<open>
  An instance: on the sample store the username \<^verbatim>\<open>bob\<close> is taken, for a new user and
  for user 1; user 1 may keep the username \<^verbatim>\<open>alice\<close>.
\<close>

theorem taken_username_rejected_witness:
  "goes_through 2 sample_db
   \<and> fst (userCreate sample_bcrypt (sample_create\<lparr>data_username := ''bob''\<rparr>) sample_db)
       = Inl (MessageCodeError ''user:validate:notUniqueUserName'')
   \<and> fst (userUpdate sample_bcrypt (sample_update\<lparr>data_username := ''bob''\<rparr>) sample_db)
       = Inl (MessageCodeError ''user:validate:notUniqueUserName'')
   \<and> userUpdate sample_bcrypt sample_update sample_db
       = userUpdate_body sample_bcrypt sample_update (advance (advance sample_db))
   \<and> users (snd (userCreate sample_bcrypt (sample_create\<lparr>data_username := ''bob''\<rparr>) sample_db)) = [alice, bob]"
proof -
  have h: "goes_through 2 sample_db" "goes_through 1 sample_db" by (simp_all add: sample_defs)
  have f: "find (\<lambda>row. username row = ''bob'') (users sample_db) = Some bob"
    "find (\<lambda>row. username row = ''alice'') (users sample_db) = Some alice"
    "find (\<lambda>row. user_id row = 1) (users sample_db) = Some alice"
    "version alice = 3" "user_id alice = 1" "user_id bob = 2"
    "users sample_db = [alice, bob]"
    by (simp_all add: sample_db_def alice_def bob_def)
  have i: "data_username (sample_create\<lparr>data_username := ''bob''\<rparr>) = ''bob''"
    "data_username (sample_update\<lparr>data_username := ''bob''\<rparr>) = ''bob''"
    "data_id (sample_update\<lparr>data_username := ''bob''\<rparr>) = 1"
    "data_version (sample_update\<lparr>data_username := ''bob''\<rparr>) = 3"
    "data_username sample_update = ''alice''" "data_id sample_update = 1" "data_version sample_update = 3"
    by (simp_all add: sample_create_def sample_update_def)
  from taken_username_rejected [of sample_db "sample_create\<lparr>data_username := ''bob''\<rparr>" sample_bcrypt
         "sample_update\<lparr>data_username := ''bob''\<rparr>"]
       taken_username_rejected [of sample_db "sample_create\<lparr>data_username := ''bob''\<rparr>" sample_bcrypt
         sample_update] h f i
  show ?thesis by simp
qed

subsection \<open>C4: a page of userList\<close>

text \<open>
  Claim C4: for a page number of at least 1 and every page size, \<^verbatim>\<open>userList\<close> returns
  rows exactly when the query goes through, the page size is not negative and the
  pattern compiles, and fails with \<^verbatim>\<open>BadRequestException\<close> otherwise. The pattern is
  the empty one for a missing or empty filter and else \<^verbatim>\<open>(^f)|( f)\<close> for the caller's
  filter \<^verbatim>\<open>f\<close>. Whenever rows are returned, they are a page of the users whose
  displayName the matcher of that pattern accepts, arranged in ascending order of
  displayName under the collation: the arrangement without its first
  \<open>(page - 1) * paging\<close> users, cut after \<open>paging\<close>. So they are at most \<open>paging\<close>,
  sorted, and all of them stored users that match. Which of the users with equal
  displayName comes first is the engine's choice.
\<close>

theorem userList_page:
  assumes "1 \<le> page"
  shows "fst (userList textFilter page paging w) =
           (if next_outcome w = None \<and> 0 \<le> paging then
              (case iRegexp w (case textFilter of
                                 None \<Rightarrow> []
                               | Some t \<Rightarrow> if t = [] then [] else ''(^'' @ t @ '')|( '' @ t @ '')'') of
                 None \<Rightarrow> Inl BadRequestException
               | Some m \<Rightarrow>
                   Inr (take (nat paging) (drop (nat ((page - 1) * paging))
                          (sort_key (\<lambda>u. collation w (displayName u))
                             (sort_key (tie_rank w)
                                (filter (\<lambda>u. m (displayName u)) (users w)))))))
            else Inl BadRequestException)
         \<and> (\<forall>rows. fst (userList textFilter page paging w) = Inr rows \<longrightarrow>
               (\<exists>m all.
                  iRegexp w (case textFilter of
                               None \<Rightarrow> []
                             | Some t \<Rightarrow> if t = [] then [] else ''(^'' @ t @ '')|( '' @ t @ '')'') = Some m
                  \<and> mset all = mset (filter (\<lambda>u. m (displayName u)) (users w))
                  \<and> sorted (map (\<lambda>u. collation w (displayName u)) all)
                  \<and> rows = take (nat paging) (drop (nat ((page - 1) * paging)) all)
                  \<and> int (length rows) \<le> paging
                  \<and> sorted (map (\<lambda>u. collation w (displayName u)) rows)
                  \<and> set rows \<subseteq> {u \<in> set (users w). m (displayName u)}))"
proof -
  let ?pat = "case textFilter of
                None \<Rightarrow> []
              | Some t \<Rightarrow> if t = [] then [] else ''(^'' @ t @ '')|( '' @ t @ '')''"
  let ?key = "\<lambda>u. collation w (displayName u)"
  have off: "0 \<le> (page - 1) * paging" if "0 \<le> paging"
    using assms that by simp
  have neg: "\<not> 0 \<le> (page - 1) * paging \<or> \<not> 0 \<le> paging" if "\<not> 0 \<le> paging"
    using that by simp
  have first: "fst (userList textFilter page paging w) =
           (if next_outcome w = None \<and> 0 \<le> paging then
              (case iRegexp w ?pat of
                 None \<Rightarrow> Inl BadRequestException
               | Some m \<Rightarrow>
                   Inr (take (nat paging) (drop (nat ((page - 1) * paging))
                          (sort_key ?key (sort_key (tie_rank w)
                             (filter (\<lambda>u. m (displayName u)) (users w)))))))
            else Inl BadRequestException)"
  proof (cases "next_outcome w = None \<and> 0 \<le> paging")
    case True
    with off show ?thesis
      by (simp add: userList_eq iRegexp_of_eq split: option.splits)
  next
    case False
    then show ?thesis
      by (auto simp: userList_eq iRegexp_of_eq split: option.splits)
  qed
  have second: "\<exists>m all. iRegexp w ?pat = Some m
          \<and> mset all = mset (filter (\<lambda>u. m (displayName u)) (users w))
          \<and> sorted (map ?key all)
          \<and> rows = take (nat paging) (drop (nat ((page - 1) * paging)) all)
          \<and> int (length rows) \<le> paging
          \<and> sorted (map ?key rows)
          \<and> set rows \<subseteq> {u \<in> set (users w). m (displayName u)}"
    if ret: "fst (userList textFilter page paging w) = Inr rows" for rows
  proof -
    from ret first obtain m where
      m: "iRegexp w ?pat = Some m" and p: "0 \<le> paging" and
      rows: "rows = take (nat paging) (drop (nat ((page - 1) * paging))
               (sort_key ?key (sort_key (tie_rank w) (filter (\<lambda>u. m (displayName u)) (users w)))))"
      by (cases "next_outcome w = None \<and> 0 \<le> paging"; cases "iRegexp w ?pat") auto
    let ?all = "sort_key ?key (sort_key (tie_rank w) (filter (\<lambda>u. m (displayName u)) (users w)))"
    have ms: "mset ?all = mset (filter (\<lambda>u. m (displayName u)) (users w))" by simp
    have sa: "sorted (map ?key ?all)" by simp
    have len: "int (length rows) \<le> paging" using p rows by simp
    from sa have "sorted (drop (nat ((page - 1) * paging)) (map ?key ?all))"
      by (rule sorted_wrt_drop)
    then have "sorted (take (nat paging) (drop (nat ((page - 1) * paging)) (map ?key ?all)))"
      by (rule sorted_wrt_take)
    then have sr: "sorted (map ?key rows)"
      by (simp add: rows take_map drop_map)
    have "set rows \<subseteq> set ?all"
      unfolding rows by (meson set_take_subset set_drop_subset subset_trans)
    then have sub: "set rows \<subseteq> {u \<in> set (users w). m (displayName u)}" by auto
    show ?thesis
      by (rule exI [of _ m], rule exI [of _ ?all]) (use m ms sa rows len sr sub in simp)
  qed
  show ?thesis
  proof (rule conjI)
    show "fst (userList textFilter page paging w) =
           (if next_outcome w = None \<and> 0 \<le> paging then
              (case iRegexp w ?pat of
                 None \<Rightarrow> Inl BadRequestException
               | Some m \<Rightarrow>
                   Inr (take (nat paging) (drop (nat ((page - 1) * paging))
                          (sort_key ?key (sort_key (tie_rank w)
                             (filter (\<lambda>u. m (displayName u)) (users w)))))))
            else Inl BadRequestException)"
      by (rule first)
    show "\<forall>rows. fst (userList textFilter page paging w) = Inr rows \<longrightarrow>
       (\<exists>m all. iRegexp w ?pat = Some m
          \<and> mset all = mset (filter (\<lambda>u. m (displayName u)) (users w))
          \<and> sorted (map ?key all)
          \<and> rows = take (nat paging) (drop (nat ((page - 1) * paging)) all)
          \<and> int (length rows) \<le> paging
          \<and> sorted (map ?key rows)
          \<and> set rows \<subseteq> {u \<in> set (users w). m (displayName u)})"
      using second by (intro allI impI)
  qed
qed

text \<open>
  An instance: the filter \<^verbatim>\<open>L\<close> on the sample store with pages of one user; the first
  page holds the one user that matches, the second is empty; a negative page size and a
  filter whose pattern the sample engine refuses give \<^verbatim>\<open>BadRequestException\<close>.
\<close>

theorem userList_page_witness:
  "(1::int) \<le> 1 \<and> (1::int) \<le> 2
   \<and> fst (userList (Some ''L'') 1 1 sample_db) = Inr [alice]
   \<and> fst (userList (Some ''L'') 2 1 sample_db) = Inr []
   \<and> fst (userList (Some ''L'') 1 (- 1) sample_db) = Inl BadRequestException
   \<and> fst (userList (Some ''x'') 1 1 sample_db) = Inl BadRequestException"
proof -
  have h1: "(1::int) \<le> 1" and h2: "(1::int) \<le> 2" by simp_all
  have n: "next_outcome sample_db = None" by (simp add: sample_defs)
  have p: "iRegexp sample_db ''(^L)|( L)'' = Some sample_L" "iRegexp sample_db ''(^x)|( x)'' = None"
    by (simp_all add: sample_defs)
  have m: "filter (\<lambda>u. sample_L (displayName u)) (users sample_db) = [alice]"
    by (simp add: sample_L_def sample_db_def alice_def bob_def)
  have a: "fst (userList (Some ''L'') 1 1 sample_db) = Inr [alice]"
    using userList_page [OF h1, of "Some ''L''" 1 sample_db, THEN conjunct1] n p m by simp
  have b: "fst (userList (Some ''L'') 2 1 sample_db) = Inr []"
    using userList_page [OF h2, of "Some ''L''" 1 sample_db, THEN conjunct1] n p m by simp
  have c: "fst (userList (Some ''L'') 1 (- 1) sample_db) = Inl BadRequestException"
    using userList_page [OF h1, of "Some ''L''" "- 1" sample_db, THEN conjunct1] by simp
  have d: "fst (userList (Some ''x'') 1 1 sample_db) = Inl BadRequestException"
    using userList_page [OF h1, of "Some ''x''" 1 sample_db, THEN conjunct1] n p by simp
  from a b c d show ?thesis by simp
qed

subsection \<open>C5: the stored password hash\<close>

text \<open>
  Claim C5: after a successful \<^verbatim>\<open>userCreate\<close> the row appended to the table, and after a
  successful \<^verbatim>\<open>userUpdate\<close> every row stored under the id and the row returned, has as
  passwordHash the result of \<^verbatim>\<open>bcrypt.hash\<close> applied to the supplied password with 12
  rounds; the supplied value itself is stored only if the hash function returns its
  argument. It holds of the methods as written and of the methods under their
  decorators.
\<close>

theorem stored_passwordHash:
  "(\<forall>v. fst (userCreate_body bc c w) = Inr v \<longrightarrow>
      (\<exists>row. v = UserValue row
         \<and> users (snd (userCreate_body bc c w)) = users w @ [row]
         \<and> bc (data_passwordHash c) 12 = Inr (passwordHash row)))
   \<and> (\<forall>v. fst (userCreate bc c w) = Inr v \<longrightarrow>
      (\<exists>row. v = UserValue row
         \<and> users (snd (userCreate bc c w)) = users w @ [row]
         \<and> bc (data_passwordHash c) 12 = Inr (passwordHash row)))
   \<and> (\<forall>v. fst (userUpdate_body bc u w) = Inr v \<longrightarrow>
      (\<forall>row. v = UserValue row \<longrightarrow> bc (data_passwordHash u) 12 = Inr (passwordHash row))
      \<and> (\<forall>r \<in> set (users (snd (userUpdate_body bc u w))).
            user_id r = data_id u \<longrightarrow> bc (data_passwordHash u) 12 = Inr (passwordHash r)))
   \<and> (\<forall>v. fst (userUpdate bc u w) = Inr v \<longrightarrow>
      (\<exists>row. v = UserValue row \<and> row \<in> set (users (snd (userUpdate bc u w)))
         \<and> bc (data_passwordHash u) 12 = Inr (passwordHash row))
      \<and> (\<forall>r \<in> set (users (snd (userUpdate bc u w))).
            user_id r = data_id u \<longrightarrow> bc (data_passwordHash u) 12 = Inr (passwordHash r)))"
proof (intro conjI allI impI)
  fix v assume "fst (userCreate_body bc c w) = Inr v"
  from userCreate_body_success [OF this]
  show "\<exists>row. v = UserValue row
         \<and> users (snd (userCreate_body bc c w)) = users w @ [row]
         \<and> bc (data_passwordHash c) 12 = Inr (passwordHash row)"
    by (auto simp: created_row_def)
next
  fix v assume "fst (userCreate bc c w) = Inr v"
  from userCreate_success [OF this]
  show "\<exists>row. v = UserValue row
         \<and> users (snd (userCreate bc c w)) = users w @ [row]
         \<and> bc (data_passwordHash c) 12 = Inr (passwordHash row)"
    by (auto simp: created_row_def)
next
  fix v row assume "fst (userUpdate_body bc u w) = Inr v" and "v = UserValue row"
  with userUpdate_body_success [of bc u w v]
  show "bc (data_passwordHash u) 12 = Inr (passwordHash row)"
    by (auto simp: updated_row_def split: if_splits)
next
  fix v assume "fst (userUpdate_body bc u w) = Inr v"
  from userUpdate_body_success [OF this]
  show "\<forall>r \<in> set (users (snd (userUpdate_body bc u w))).
          user_id r = data_id u \<longrightarrow> bc (data_passwordHash u) 12 = Inr (passwordHash r)"
    by (auto simp: updated_row_def)
next
  fix v assume s: "fst (userUpdate bc u w) = Inr v"
  from userUpdate_success [OF s] obtain hash where
    h: "bc (data_passwordHash u) 12 = Inr hash" "v = UserValue (updated_row u hash)"
       "users (snd (userUpdate bc u w)) =
          map (\<lambda>r. if user_id r = data_id u then updated_row u hash else r) (users w)"
    by blast
  from s have "list_ex (\<lambda>r. user_id r = data_id u) (users w)"
    by (auto simp: userUpdate_eq dest: find_list_ex split: option.splits if_splits)
  then have "updated_row u hash \<in> set (users (snd (userUpdate bc u w)))"
    unfolding h(3) by (auto simp: list_ex_iff)
  with h(1,2) show "\<exists>row. v = UserValue row \<and> row \<in> set (users (snd (userUpdate bc u w)))
         \<and> bc (data_passwordHash u) 12 = Inr (passwordHash row)"
    by (auto simp: updated_row_def)
next
  fix v assume "fst (userUpdate bc u w) = Inr v"
  from userUpdate_success [OF this]
  show "\<forall>r \<in> set (users (snd (userUpdate bc u w))).
          user_id r = data_id u \<longrightarrow> bc (data_passwordHash u) 12 = Inr (passwordHash r)"
    by (auto simp: updated_row_def)
qed

text \<open>
  An instance: creating a user and updating user 1 on the sample store, with the
  password \<^verbatim>\<open>pw\<close>.
\<close>

theorem stored_passwordHash_witness:
  "fst (userCreate sample_bcrypt sample_create sample_db)
     = Inr (UserValue \<lparr> user_id = 3, username = ''carol'', passwordHash = ''$2b$wp'',
                        displayName = ''Danvers Carol S'', userRoleName = ''user'', version = 0 \<rparr>)
   \<and> fst (userUpdate sample_bcrypt sample_update sample_db)
     = Inr (UserValue \<lparr> user_id = 1, username = ''alice'', passwordHash = ''$2b$wp'',
                        displayName = ''Hargreaves Alice P'', userRoleName = ''admin'', version = 3 \<rparr>)
   \<and> sample_bcrypt (data_passwordHash sample_create) 12 = Inr ''$2b$wp''
   \<and> sample_bcrypt (data_passwordHash sample_update) 12 = Inr ''$2b$wp''"
proof -
  have c: "fst (userCreate sample_bcrypt sample_create sample_db)
     = Inr (UserValue \<lparr> user_id = 3, username = ''carol'', passwordHash = ''$2b$wp'',
                        displayName = ''Danvers Carol S'', userRoleName = ''user'', version = 0 \<rparr>)"
    by (simp add: userCreate_eq userCreate_body_eq created_row_def displayName_of_def sample_defs)
  have u: "fst (userUpdate sample_bcrypt sample_update sample_db)
     = Inr (UserValue \<lparr> user_id = 1, username = ''alice'', passwordHash = ''$2b$wp'',
                        displayName = ''Hargreaves Alice P'', userRoleName = ''admin'', version = 3 \<rparr>)"
    by (simp add: userUpdate_eq userUpdate_body_eq updated_row_def displayName_of_def sample_defs)
  from stored_passwordHash [where bc = sample_bcrypt and c = sample_create and w = sample_db and u = sample_update] c u
  show ?thesis by (simp add: sample_defs)
qed

subsection \<open>C6: how failures are surfaced\<close>



subsection \<open>C7: what the mutations return\<close>

text \<open>
  Claim C7 as amended: a successful \<^verbatim>\<open>userCreate\<close> and a successful \<^verbatim>\<open>userUpdate\<close>
  return the user entity; a successful \<^verbatim>\<open>userDelete\<close> returns a number, the number of
  user rows stored under the id that it deleted. It holds of the methods as written and
  of the methods under their decorators, but that \<^verbatim>\<open>userUpdate\<close> as written returns
  \<^verbatim>\<open>undefined\<close> when no row is stored under the id, which the version check excludes.
\<close>

theorem mutation_results:
  "(\<forall>v. fst (userCreate_body bc c w) = Inr v \<longrightarrow> is_UserValue v)
   \<and> (\<forall>v. fst (userCreate bc c w) = Inr v \<longrightarrow> is_UserValue v)
   \<and> (\<forall>v. fst (userUpdate_body bc u w) = Inr v \<longrightarrow>
          (if list_ex (\<lambda>row. user_id row = data_id u) (users w)
           then is_UserValue v else v = UndefinedValue))
   \<and> (\<forall>v. fst (userUpdate bc u w) = Inr v \<longrightarrow> is_UserValue v)
   \<and> (\<forall>v. fst (userDelete_body d w) = Inr v \<longrightarrow>
          v = NumberValue (length (filter (\<lambda>row. user_id row = delete_id d) (users w))))
   \<and> (\<forall>v. fst (userDelete d w) = Inr v \<longrightarrow>
          v = NumberValue (length (filter (\<lambda>row. user_id row = delete_id d) (users w))))"
  using userCreate_body_success [of bc c w] userCreate_success [of bc c w]
    userUpdate_body_success [of bc u w] userUpdate_success [of bc u w]
    userDelete_body_result [of d w] userDelete_success [of d w]
  by auto

text \<open>
  An instance: the three mutations on the sample store.
\<close>

theorem mutation_results_witness:
  "fst (userCreate sample_bcrypt sample_create sample_db)
     = Inr (UserValue \<lparr> user_id = 3, username = ''carol'', passwordHash = ''$2b$wp'',
                        displayName = ''Danvers Carol S'', userRoleName = ''user'', version = 0 \<rparr>)
   \<and> fst (userUpdate sample_bcrypt sample_update sample_db)
     = Inr (UserValue \<lparr> user_id = 1, username = ''alice'', passwordHash = ''$2b$wp'',
                        displayName = ''Hargreaves Alice P'', userRoleName = ''admin'', version = 3 \<rparr>)
   \<and> fst (userDelete sample_delete sample_db) = Inr (NumberValue 1)
   \<and> length (filter (\<lambda>row. user_id row = delete_id sample_delete) (users sample_db)) = 1"
proof -
  have c: "fst (userCreate sample_bcrypt sample_create sample_db)
     = Inr (UserValue \<lparr> user_id = 3, username = ''carol'', passwordHash = ''$2b$wp'',
                        displayName = ''Danvers Carol S'', userRoleName = ''user'', version = 0 \<rparr>)"
    by (simp add: userCreate_eq userCreate_body_eq created_row_def displayName_of_def sample_defs)
  have u: "fst (userUpdate sample_bcrypt sample_update sample_db)
     = Inr (UserValue \<lparr> user_id = 1, username = ''alice'', passwordHash = ''$2b$wp'',
                        displayName = ''Hargreaves Alice P'', userRoleName = ''admin'', version = 3 \<rparr>)"
    by (simp add: userUpdate_eq userUpdate_body_eq updated_row_def displayName_of_def sample_defs)
  have d: "fst (userDelete sample_delete sample_db) = Inr (NumberValue 1)"
    by (simp add: userDelete_eq delete_defs sample_defs)
  from mutation_results [where bc = sample_bcrypt and c = sample_create and w = sample_db and u = sample_update and d = sample_delete] c u d
  show ?thesis by simp
qed

text \<open>
  Claim C7 as stated says that a successful \<^verbatim>\<open>userDelete\<close> returns the user entity. On
  the sample store it returns the number 1.
\<close>

theorem userDelete_returns_number_counterexample:
  "fst (userDelete sample_delete sample_db) = Inr (NumberValue 1)
   \<and> \<not> is_UserValue (NumberValue 1)"
  by (simp add: userDelete_eq delete_defs sample_defs)

subsection \<open>C8: the stored displayName\<close>

text \<open>
  Claim C8: after a successful \<^verbatim>\<open>userCreate\<close> the row appended to the table, and after a
  successful \<^verbatim>\<open>userUpdate\<close> every row stored under the id and the row returned, has as
  displayName the second name, the first name and the middle name of the input with one
  space between them, whatever displayName the input carries. It holds of the methods as
  written and of the methods under their decorators.
\<close>

theorem stored_displayName:
  "(\<forall>v. fst (userCreate_body bc c w) = Inr v \<longrightarrow>
      (\<exists>row. v = UserValue row
         \<and> users (snd (userCreate_body bc c w)) = users w @ [row]
         \<and> displayName row = data_secondName c @ '' '' @ data_firstName c @ '' '' @ data_middleName c))
   \<and> (\<forall>v. fst (userCreate bc c w) = Inr v \<longrightarrow>
      (\<exists>row. v = UserValue row
         \<and> users (snd (userCreate bc c w)) = users w @ [row]
         \<and> displayName row = data_secondName c @ '' '' @ data_firstName c @ '' '' @ data_middleName c))
   \<and> (\<forall>v. fst (userUpdate_body bc u w) = Inr v \<longrightarrow>
      (\<forall>row. v = UserValue row \<longrightarrow>
          displayName row = data_secondName u @ '' '' @ data_firstName u @ '' '' @ data_middleName u)
      \<and> (\<forall>r \<in> set (users (snd (userUpdate_body bc u w))).
            user_id r = data_id u \<longrightarrow>
            displayName r = data_secondName u @ '' '' @ data_firstName u @ '' '' @ data_middleName u))
   \<and> (\<forall>v. fst (userUpdate bc u w) = Inr v \<longrightarrow>
      (\<exists>row. v = UserValue row \<and> row \<in> set (users (snd (userUpdate bc u w)))
         \<and> displayName row = data_secondName u @ '' '' @ data_firstName u @ '' '' @ data_middleName u)
      \<and> (\<forall>r \<in> set (users (snd (userUpdate bc u w))).
            user_id r = data_id u \<longrightarrow>
            displayName r = data_secondName u @ '' '' @ data_firstName u @ '' '' @ data_middleName u))"
proof (intro conjI allI impI)
  fix v assume "fst (userCreate_body bc c w) = Inr v"
  from userCreate_body_success [OF this]
  show "\<exists>row. v = UserValue row
         \<and> users (snd (userCreate_body bc c w)) = users w @ [row]
         \<and> displayName row = data_secondName c @ '' '' @ data_firstName c @ '' '' @ data_middleName c"
    by (auto simp: created_row_def displayName_of_def)
next
  fix v assume "fst (userCreate bc c w) = Inr v"
  from userCreate_success [OF this]
  show "\<exists>row. v = UserValue row
         \<and> users (snd (userCreate bc c w)) = users w @ [row]
         \<and> displayName row = data_secondName c @ '' '' @ data_firstName c @ '' '' @ data_middleName c"
    by (auto simp: created_row_def displayName_of_def)
next
  fix v row assume "fst (userUpdate_body bc u w) = Inr v" and "v = UserValue row"
  with userUpdate_body_success [of bc u w v]
  show "displayName row = data_secondName u @ '' '' @ data_firstName u @ '' '' @ data_middleName u"
    by (auto simp: updated_row_def displayName_of_def split: if_splits)
next
  fix v assume "fst (userUpdate_body bc u w) = Inr v"
  from userUpdate_body_success [OF this]
  show "\<forall>r \<in> set (users (snd (userUpdate_body bc u w))).
          user_id r = data_id u \<longrightarrow>
            displayName r = data_secondName u @ '' '' @ data_firstName u @ '' '' @ data_middleName u"
    by (auto simp: updated_row_def displayName_of_def)
next
  fix v assume s: "fst (userUpdate bc u w) = Inr v"
  from userUpdate_success [OF s] obtain hash where
    h: "v = UserValue (updated_row u hash)" and
    hu: "users (snd (userUpdate bc u w)) =
          map (\<lambda>r. if user_id r = data_id u then updated_row u hash else r) (users w)"
    by blast
  from s have "list_ex (\<lambda>r. user_id r = data_id u) (users w)"
    by (auto simp: userUpdate_eq dest: find_list_ex split: option.splits if_splits)
  then have "updated_row u hash \<in> set (users (snd (userUpdate bc u w)))"
    unfolding hu by (auto simp: list_ex_iff)
  with h show "\<exists>row. v = UserValue row \<and> row \<in> set (users (snd (userUpdate bc u w)))
         \<and> displayName row = data_secondName u @ '' '' @ data_firstName u @ '' '' @ data_middleName u"
    by (auto simp: updated_row_def displayName_of_def)
next
  fix v assume "fst (userUpdate bc u w) = Inr v"
  from userUpdate_success [OF this]
  show "\<forall>r \<in> set (users (snd (userUpdate bc u w))).
          user_id r = data_id u \<longrightarrow>
            displayName r = data_secondName u @ '' '' @ data_firstName u @ '' '' @ data_middleName u"
    by (auto simp: updated_row_def displayName_of_def)
qed

text \<open>
  An instance: the inputs carry the displayName \<^verbatim>\<open>Captain\<close>; the stored names are
  built from the name parts.
\<close>

theorem stored_displayName_witness:
  "data_displayName sample_create = Some ''Captain''
   \<and> fst (userCreate sample_bcrypt sample_create sample_db)
     = Inr (UserValue \<lparr> user_id = 3, username = ''carol'', passwordHash = ''$2b$wp'',
                        displayName = ''Danvers Carol S'', userRoleName = ''user'', version = 0 \<rparr>)
   \<and> fst (userUpdate sample_bcrypt sample_update sample_db)
     = Inr (UserValue \<lparr> user_id = 1, username = ''alice'', passwordHash = ''$2b$wp'',
                        displayName = ''Hargreaves Alice P'', userRoleName = ''admin'', version = 3 \<rparr>)"
proof -
  have c: "fst (userCreate sample_bcrypt sample_create sample_db)
     = Inr (UserValue \<lparr> user_id = 3, username = ''carol'', passwordHash = ''$2b$wp'',
                        displayName = ''Danvers Carol S'', userRoleName = ''user'', version = 0 \<rparr>)"
    by (simp add: userCreate_eq userCreate_body_eq created_row_def displayName_of_def sample_defs)
  have u: "fst (userUpdate sample_bcrypt sample_update sample_db)
     = Inr (UserValue \<lparr> user_id = 1, username = ''alice'', passwordHash = ''$2b$wp'',
                        displayName = ''Hargreaves Alice P'', userRoleName = ''admin'', version = 3 \<rparr>)"
    by (simp add: userUpdate_eq userUpdate_body_eq updated_row_def displayName_of_def sample_defs)
  have d: "data_displayName sample_create = Some ''Captain''" by (simp add: sample_create_def)
  from stored_displayName [where bc = sample_bcrypt and c = sample_create and w = sample_db and u = sample_update] c u d
  show ?thesis by simp
qed

subsection \<open>C9: usersFind with two empty lists\<close>

text \<open>
  Claim C9 as amended: when both the list of ids and the list of usernames are empty,
  \<^verbatim>\<open>usersFind\<close> returns the empty list if the query goes through (and fails with
  \<^verbatim>\<open>BadRequestException\<close> if it is rejected): both members of the \<^verbatim>\<open>Op.or\<close> group are
  empty objects, and a group with no member left selects no row.
\<close>

theorem usersFind_empty_lists:
  assumes "ids data = []" and "usernames data = []"
  shows "fst (usersFind data w) =
           (case next_outcome w of Some e \<Rightarrow> Inl BadRequestException | None \<Rightarrow> Inr [])"
  using assms by (simp add: usersFind_eq split: option.splits)

text \<open>
  An instance on the sample store.
\<close>

theorem usersFind_empty_lists_witness:
  "ids \<lparr> ids = [], usernames = [] \<rparr> = [] \<and> usernames \<lparr> ids = [], usernames = [] \<rparr> = []
   \<and> fst (usersFind \<lparr> ids = [], usernames = [] \<rparr> sample_db) = Inr []"
proof -
  have h1: "ids \<lparr> ids = [], usernames = [] \<rparr> = []" and h2: "usernames \<lparr> ids = [], usernames = [] \<rparr> = []"
    by simp_all
  from usersFind_empty_lists [OF h1 h2, of sample_db] show ?thesis
    by (simp add: sample_defs)
qed

text \<open>
  Claim C9 as stated says that \<^verbatim>\<open>usersFind\<close> with two empty lists returns every user
  of the store. On the sample store, which holds two users, it returns none.
\<close>

theorem usersFind_empty_counterexample:
  "fst (usersFind \<lparr> ids = [], usernames = [] \<rparr> sample_db) = Inr []
   \<and> users sample_db = [alice, bob]"
  by (simp add: usersFind_eq sample_defs)

subsection \<open>C10: userList with an empty filter\<close>

text \<open>
  Claim C10: for a missing or empty text filter \<^verbatim>\<open>userList\<close> passes the empty pattern,
  and when the engine compiles the empty pattern to a matcher that accepts every
  string, \<^verbatim>\<open>userList\<close> returns, for every page and page size, what the same paginated
  and ordered query without a condition returns (and fails when that query fails).
\<close>

theorem userList_empty_filter:
  assumes "isEmpty textFilter" and "iRegexp w [] = Some m" and "\<forall>s. m s"
  shows "iRegexp_of textFilter = []
         \<and> fst (userList textFilter page paging w) =
             (case fst (findAll \<lparr> opt_where = WEmpty, opt_attributes = None,
                                  opt_limit = Some paging,
                                  opt_offset = Some ((page - 1) * paging),
                                  opt_order = DisplayNameAsc \<rparr> w) of
                Inl error \<Rightarrow> Inl BadRequestException
              | Inr rows \<Rightarrow> Inr rows)"
proof -
  from assms(1) have p: "iRegexp_of textFilter = []" by (simp add: iRegexp_of_def)
  from assms(3) have all: "filter (\<lambda>u. m (displayName u)) (users w) = users w" by simp
  have e: "where_matches (iRegexp w) WEmpty = (\<lambda>u. True)" by (rule ext) simp
  from p assms(2) all e show ?thesis
    by (simp add: userList_eq findAll_eq negative_def apply_limit_def apply_offset_def
        apply_order_def split: option.splits)
qed

text \<open>
  An instance: the missing and the empty filter on the sample store list both users in
  the order of their displayNames.
\<close>

theorem userList_empty_filter_witness:
  "isEmpty None \<and> isEmpty (Some []) \<and> iRegexp sample_db [] = Some sample_any \<and> (\<forall>s. sample_any s)
   \<and> fst (userList None 1 10 sample_db) = Inr [bob, alice]
   \<and> fst (userList (Some []) 1 10 sample_db) = Inr [bob, alice]"
proof -
  have h1: "isEmpty None" "isEmpty (Some [])" by (simp_all add: isEmpty_def)
  have h2: "iRegexp sample_db [] = Some sample_any" by (simp add: sample_defs)
  have h3: "\<forall>s. sample_any s" by (simp add: sample_any_def)
  have r: "fst (findAll \<lparr> opt_where = WEmpty, opt_attributes = None, opt_limit = Some 10,
                          opt_offset = Some ((1 - 1) * 10), opt_order = DisplayNameAsc \<rparr> sample_db)
           = Inr [bob, alice]"
    by (simp add: findAll_def db_call_def sample_db_def negative_def apply_limit_def apply_offset_def
        apply_order_def alice_def bob_def)
  from userList_empty_filter [OF h1(1) h2 h3, of 1 10] userList_empty_filter [OF h1(2) h2 h3, of 1 10]
    h1 h2 h3 r
  show ?thesis by simp
qed

end
